theory Spec2Isabelle
  imports Main "HOL-Library.Char_ord" "HOL-Library.List_Lexorder" "HOL-Library.Option_ord"
begin

section \<open>Data model\<close>

text \<open>
  The job statuses of \<^verbatim>\<open>rq.job.Status\<close>. The failed queue is named after the string form of
  \<open>FAILED\<close>.
\<close>

datatype Status = QUEUED | FINISHED | FAILED | STARTED | DEFERRED

text \<open>
  Modelled from the spec: the \<^verbatim>\<open>Job\<close> class (\<^verbatim>\<open>rq/job.py\<close>) is not among the sources. The
  record holds the typed metadata fields that \<^verbatim>\<open>rq/queue.py\<close> reads and writes; the payload is
  opaque to the queue and is left out. \<open>origin\<close> and \<open>timeout\<close> may be unset (Python's
  \<^verbatim>\<open>None\<close>); \<open>dependencies\<close> is the ordered set of parent job IDs.
\<close>

record Job =
  job_id :: string
  status :: Status
  origin :: "string option"
  timeout :: "int option"
  exc_info :: "string option"
  enqueued_at :: "nat option"
  ended_at :: "nat option"
  dependencies :: "string list"

text \<open>
  A queue handle: \<^verbatim>\<open>self.name\<close>, \<^verbatim>\<open>self._default_timeout\<close>, \<^verbatim>\<open>self._async\<close>. The name is
  whatever the constructor was given, so it is \<open>None\<close> for \<^verbatim>\<open>Queue(job.origin)\<close> on a job
  without origin.
\<close>

record queue =
  name :: "string option"
  default_timeout :: "int option"
  async :: bool

datatype error =
    NoSuchJobError
  | InvalidJobOperationError
  | ValueError
  | TypeError
  | ResponseError
  | DequeueTimeout int "string list"
  | UnpickleError "(string \<times> queue) option"

text \<open>
  A stored job hash either loads as a job or has a payload that does not deserialize.
\<close>

datatype blob = Pickled Job | Corrupt

text \<open>
  The Store: list keys, set keys and job hashes (keyed by job ID, that is the key
  \<^verbatim>\<open>rq:job:<id>\<close>). A key that does not exist holds the empty list. A set is kept as the list
  of its members in the order in which the Store will pop them; that order is arbitrary and
  every theorem below holds for each of them.
\<close>

record store =
  store_lists :: "string \<Rightarrow> string list"
  store_sets :: "string \<Rightarrow> string list"
  store_jobs :: "string \<rightharpoonup> blob"

type_synonym 'a result = "(error + 'a) \<times> store"

definition empty_store :: store where
  "empty_store = \<lparr>store_lists = (\<lambda>_. []), store_sets = (\<lambda>_. []), store_jobs = Map.empty\<rparr>"

section \<open>Store primitives\<close>

text \<open>
  Modelled from the spec: the Store client, and the wrapper \<^verbatim>\<open>_lrem\<close> that the missing
  \<^verbatim>\<open>rq/connections.py\<close> puts on it, are not among the sources. These are the primitives of
  the spec's section on external interfaces that \<^verbatim>\<open>rq/queue.py\<close> issues on
  \<^verbatim>\<open>self.connection\<close>, with the Store's semantics: append-right (\<open>RPUSH\<close>), pop-left (\<open>LPOP\<close>),
  remove-by-value with count 0 (\<open>LREM\<close>: delete every occurrence, report how many were
  deleted), rename key (\<open>RENAME\<close>: an error when the source key does not exist, and a list
  that has become empty does not exist), and on sets add (\<open>SADD\<close>), remove (\<open>SREM\<close>: reports
  how many members were removed), pop (\<open>SPOP\<close>), cardinality (\<open>SCARD\<close>) and members
  (\<open>SMEMBERS\<close>).
\<close>

definition conn_rpush :: "string \<Rightarrow> string \<Rightarrow> store \<Rightarrow> store" where
  "conn_rpush k v s = s\<lparr>store_lists := (store_lists s)(k := store_lists s k @ [v])\<rparr>"

definition conn_lpop :: "string \<Rightarrow> store \<Rightarrow> string option \<times> store" where
  "conn_lpop k s =
     (case store_lists s k of
        [] \<Rightarrow> (None, s)
      | x # xs \<Rightarrow> (Some x, s\<lparr>store_lists := (store_lists s)(k := xs)\<rparr>))"

definition conn_lrem :: "string \<Rightarrow> string \<Rightarrow> store \<Rightarrow> nat \<times> store" where
  "conn_lrem k v s =
     (count_list (store_lists s k) v,
      s\<lparr>store_lists := (store_lists s)(k := removeAll v (store_lists s k))\<rparr>)"

definition conn_rename :: "string \<Rightarrow> string \<Rightarrow> store \<Rightarrow> unit result" where
  "conn_rename src dst s =
     (if store_lists s src = [] then (Inl ResponseError, s)
      else (Inr (), s\<lparr>store_lists := (store_lists s)(src := [], dst := store_lists s src)\<rparr>))"

definition conn_sadd :: "string \<Rightarrow> string \<Rightarrow> store \<Rightarrow> store" where
  "conn_sadd k v s =
     (if v \<in> set (store_sets s k) then s
      else s\<lparr>store_sets := (store_sets s)(k := store_sets s k @ [v])\<rparr>)"

definition conn_srem :: "string \<Rightarrow> string \<Rightarrow> store \<Rightarrow> nat \<times> store" where
  "conn_srem k v s =
     ((if v \<in> set (store_sets s k) then 1 else 0),
      s\<lparr>store_sets := (store_sets s)(k := removeAll v (store_sets s k))\<rparr>)"

definition conn_spop :: "string \<Rightarrow> store \<Rightarrow> string option \<times> store" where
  "conn_spop k s =
     (case store_sets s k of
        [] \<Rightarrow> (None, s)
      | x # xs \<Rightarrow> (Some x, s\<lparr>store_sets := (store_sets s)(k := xs)\<rparr>))"

definition conn_scard :: "string \<Rightarrow> store \<Rightarrow> nat" where
  "conn_scard k s = length (store_sets s k)"

definition conn_smembers :: "string \<Rightarrow> store \<Rightarrow> string list" where
  "conn_smembers k s = store_sets s k"

text \<open>
  \<open>BLPOP\<close> over several keys serves the first key, in the order given, whose list is not
  empty. The model is of a call during which no other client writes to the Store: then the
  call returns nothing, at the expiry of its timeout, exactly when every list is empty.
\<close>

fun conn_blpop :: "string list \<Rightarrow> int \<Rightarrow> store \<Rightarrow> (string \<times> string) option \<times> store" where
  "conn_blpop [] t s = (None, s)"
| "conn_blpop (k # ks) t s =
     (case store_lists s k of
        [] \<Rightarrow> conn_blpop ks t s
      | x # xs \<Rightarrow> (Some (k, x), s\<lparr>store_lists := (store_lists s)(k := xs)\<rparr>))"

section \<open>Job records in the Store\<close>

text \<open>
  Modelled from the spec: \<^verbatim>\<open>Job.exists\<close>, \<^verbatim>\<open>Job.fetch\<close>, \<^verbatim>\<open>Job.save\<close>, \<^verbatim>\<open>Job.is_deferred\<close> and
  \<^verbatim>\<open>Job.dependents_key\<close> of the missing \<^verbatim>\<open>rq/job.py\<close>. A job exists when its hash does;
  fetching fails with \<open>NoSuchJobError\<close> when the ID has no backing record and with
  \<open>UnpickleError\<close> when the record exists but its payload cannot be materialized; the job
  that is loaded carries the ID it was asked for. Saving persists the record under the job's
  ID. The reverse-dependency set of a job is the set key \<^verbatim>\<open>rq:job:<id>:dependents\<close>.
\<close>

definition Job_exists :: "string \<Rightarrow> store \<Rightarrow> bool" where
  "Job_exists i s = (store_jobs s i \<noteq> None)"

definition Job_fetch :: "string \<Rightarrow> store \<Rightarrow> error + Job" where
  "Job_fetch i s =
     (case store_jobs s i of
        None \<Rightarrow> Inl NoSuchJobError
      | Some Corrupt \<Rightarrow> Inl (UnpickleError None)
      | Some (Pickled j) \<Rightarrow> Inr (j\<lparr>job_id := i\<rparr>))"

definition save :: "Job \<Rightarrow> store \<Rightarrow> store" where
  "save j s = s\<lparr>store_jobs := (store_jobs s)(job_id j \<mapsto> Pickled j)\<rparr>"

definition is_deferred :: "Job \<Rightarrow> bool" where
  "is_deferred j = (status j = DEFERRED)"

definition dependents_key :: "Job \<Rightarrow> string" where
  "dependents_key j = ''rq:job:'' @ job_id j @ '':dependents''"

section \<open>Queues\<close>

definition DEFAULT_TIMEOUT :: int where
  "DEFAULT_TIMEOUT = 180"

definition redis_queue_namespace_prefix :: string where
  "redis_queue_namespace_prefix = ''rq:queue:''"

definition redis_queues_keys :: string where
  "redis_queues_keys = ''rq:queues''"

text \<open>\<^verbatim>\<open>'%s%s' % (prefix, name)\<close>: Python formats an unset name as \<^verbatim>\<open>None\<close>.\<close>

definition py_str :: "string option \<Rightarrow> string" where
  "py_str n = (case n of None \<Rightarrow> ''None'' | Some t \<Rightarrow> t)"

text \<open>\<^verbatim>\<open>Queue(name)\<close> with the defaults \<^verbatim>\<open>default_timeout=None\<close>, \<^verbatim>\<open>async=True\<close>.\<close>

definition Queue_init :: "string option \<Rightarrow> queue" where
  "Queue_init n = \<lparr>name = n, default_timeout = None, async = True\<rparr>"

definition key :: "queue \<Rightarrow> string" where
  "key q = redis_queue_namespace_prefix @ py_str (name q)"

definition from_queue_key :: "string \<Rightarrow> error + queue" where
  "from_queue_key queue_key =
     (let prefix = redis_queue_namespace_prefix in
      if take (length prefix) queue_key \<noteq> prefix then Inl ValueError
      else Inr (Queue_init (Some (drop (length prefix) queue_key))))"

text \<open>An argument that is either a \<^verbatim>\<open>Job\<close> instance or a job ID.\<close>

datatype job_or_id = AJob Job | AnId string

text \<open>\<^verbatim>\<open>Queue.remove\<close>: the count that the Store's list-remove reports is returned as it is.\<close>

definition queue_remove :: "queue \<Rightarrow> job_or_id \<Rightarrow> store \<Rightarrow> nat \<times> store" where
  "queue_remove self job_or_id s =
     (let i = (case job_or_id of AJob j \<Rightarrow> job_id j | AnId i \<Rightarrow> i)
      in conn_lrem (key self) i s)"

definition push_job_id :: "queue \<Rightarrow> string \<Rightarrow> store \<Rightarrow> store" where
  "push_job_id self i s = conn_rpush (key self) i s"

definition pop_job_id :: "queue \<Rightarrow> store \<Rightarrow> string option \<times> store" where
  "pop_job_id self s = conn_lpop (key self) s"

text \<open>
  \<^verbatim>\<open>Queue.enqueue_job\<close>. \<open>now\<close> is the reading of \<^verbatim>\<open>utcnow()\<close>. With \<^verbatim>\<open>async=False\<close> the job is
  executed at once by \<^verbatim>\<open>job.perform()\<close>, which belongs to the worker side: \<open>perform\<close> stands
  for what it leaves in the job before the second save.
\<close>

definition enqueue_job ::
  "(Job \<Rightarrow> Job) \<Rightarrow> nat \<Rightarrow> queue \<Rightarrow> Job \<Rightarrow> bool \<Rightarrow> store \<Rightarrow> Job \<times> store" where
  "enqueue_job perform now self job set_meta_data s =
     (let s1 = conn_sadd redis_queues_keys (key self) s;
          job1 = (if set_meta_data then job\<lparr>origin := name self, enqueued_at := Some now\<rparr>
                  else job);
          job2 = (if timeout job1 = None then job1\<lparr>timeout := Some DEFAULT_TIMEOUT\<rparr>
                  else job1);
          s2 = save job2 s1
      in if async self then (job2, push_job_id self (job_id job2) s2)
         else (let job3 = perform job2 in (job3, save job3 s2)))"

text \<open>
  \<^verbatim>\<open>Queue.enqueue_dependents\<close>: the loop pops the parent's reverse-dependency set until it is
  empty. A child whose record does not load ends the loop with the error of \<^verbatim>\<open>Job.fetch\<close>.
  The loop ends because \<^verbatim>\<open>enqueue_job\<close> writes to no set but the queue registry. The clock
  reading \<open>now\<close> is taken to be the same in every turn.
\<close>

lemma dependents_key_not_registry:
  "dependents_key j \<noteq> redis_queues_keys"
  by (simp add: dependents_key_def redis_queues_keys_def)

lemma store_sets_enqueue_job:
  "k \<noteq> redis_queues_keys \<Longrightarrow>
     store_sets (snd (enqueue_job perform now self job set_meta_data s)) k = store_sets s k"
  by (simp add: enqueue_job_def Let_def conn_sadd_def save_def push_job_id_def conn_rpush_def)

lemma conn_spop_shorter:
  "conn_spop k s = (Some i, s1) \<Longrightarrow> store_sets s k = i # store_sets s1 k"
  by (auto simp: conn_spop_def split: list.splits)

function enqueue_dependents ::
  "(Job \<Rightarrow> Job) \<Rightarrow> nat \<Rightarrow> queue \<Rightarrow> Job \<Rightarrow> store \<Rightarrow> unit result" where
  "enqueue_dependents perform now self job s =
     (case conn_spop (dependents_key job) s of
        (None, s1) \<Rightarrow> (Inr (), s1)
      | (Some i, s1) \<Rightarrow>
          (case Job_fetch i s1 of
             Inl e \<Rightarrow> (Inl e, s1)
           | Inr dependent \<Rightarrow>
               enqueue_dependents perform now self job
                 (snd (enqueue_job perform now self dependent True s1))))"
  by pat_completeness auto
termination
proof (relation "measure (\<lambda>(perform, now, self, job, s). length (store_sets s (dependents_key job)))")
  show "wf (measure (\<lambda>(perform, now, self, job, s). length (store_sets s (dependents_key job))))"
    by simp
next
  fix perform :: "Job \<Rightarrow> Job" and now :: nat and self :: queue and job :: Job
    and s s1 :: store and x i dependent
  assume "(x, s1) = conn_spop (dependents_key job) s" and "x = Some i"
  then have "store_sets s (dependents_key job) = i # store_sets s1 (dependents_key job)"
    using conn_spop_shorter [of "dependents_key job" s i s1] by simp
  then show "((perform, now, self, job, snd (enqueue_job perform now self dependent True s1)),
              (perform, now, self, job, s))
             \<in> measure (\<lambda>(perform, now, self, job, s). length (store_sets s (dependents_key job)))"
    by (simp add: store_sets_enqueue_job dependents_key_not_registry)
qed

declare enqueue_dependents.simps [simp del]

text \<open>
  \<^verbatim>\<open>Queue.lpop\<close>, the helper of \<^verbatim>\<open>dequeue_any\<close>. Without a timeout it pops each key in turn
  and returns the first hit; with one it raises on 0 and otherwise blocks on \<open>BLPOP\<close>.
\<close>

fun lpop_each :: "string list \<Rightarrow> store \<Rightarrow> (string \<times> string) option \<times> store" where
  "lpop_each [] s = (None, s)"
| "lpop_each (queue_key # rest) s =
     (case conn_lpop queue_key s of
        (Some blob, s1) \<Rightarrow> (Some (queue_key, blob), s1)
      | (None, s1) \<Rightarrow> lpop_each rest s1)"

definition Queue_lpop ::
  "string list \<Rightarrow> int option \<Rightarrow> store \<Rightarrow> (string \<times> string) option result" where
  "Queue_lpop queue_keys t s =
     (case t of
        Some n \<Rightarrow>
          (if n = 0 then (Inl ValueError, s)
           else (case conn_blpop queue_keys n s of
                   (None, s1) \<Rightarrow> (Inl (DequeueTimeout n queue_keys), s1)
                 | (Some (queue_key, i), s1) \<Rightarrow> (Inr (Some (queue_key, i)), s1)))
      | None \<Rightarrow>
          (case lpop_each queue_keys s of
             (Some (queue_key, blob), s1) \<Rightarrow> (Inr (Some (queue_key, blob)), s1)
           | (None, s1) \<Rightarrow> (Inr None, s1)))"

text \<open>The total length of the lists under the given keys: each pop makes it smaller.\<close>

definition backlog :: "string list \<Rightarrow> store \<Rightarrow> nat" where
  "backlog ks s = (\<Sum>k\<leftarrow>ks. length (store_lists s k))"

lemma sum_pop_le:
  "l k = x # xs \<Longrightarrow> (\<Sum>k'\<leftarrow>ks. length ((l(k := xs)) k')) \<le> (\<Sum>k'\<leftarrow>ks. length (l k'))"
  by (induction ks) auto

lemma sum_pop_less:
  "k \<in> set ks \<Longrightarrow> l k = x # xs \<Longrightarrow>
     (\<Sum>k'\<leftarrow>ks. length ((l(k := xs)) k')) < (\<Sum>k'\<leftarrow>ks. length (l k'))"
proof (induction ks)
  case Nil
  then show ?case by simp
next
  case (Cons a ks)
  show ?case
  proof (cases "a = k")
    case True
    with Cons.prems sum_pop_le [of l k x xs ks] show ?thesis by simp
  next
    case False
    with Cons show ?thesis by simp
  qed
qed

lemma backlog_pop:
  "k \<in> set ks \<Longrightarrow> store_lists s k = x # xs \<Longrightarrow>
     backlog ks (s\<lparr>store_lists := (store_lists s)(k := xs)\<rparr>) < backlog ks s"
  using sum_pop_less [of k ks "store_lists s" x xs] by (simp add: backlog_def)

lemma conn_blpop_served:
  "conn_blpop ks t s = (Some (k, x), s1) \<Longrightarrow>
     k \<in> set ks \<and> (\<exists>xs. store_lists s k = x # xs
                        \<and> s1 = s\<lparr>store_lists := (store_lists s)(k := xs)\<rparr>)"
  by (induction ks) (auto split: list.splits)

lemma lpop_each_served:
  "lpop_each ks s = (Some (k, x), s1) \<Longrightarrow>
     k \<in> set ks \<and> (\<exists>xs. store_lists s k = x # xs
                        \<and> s1 = s\<lparr>store_lists := (store_lists s)(k := xs)\<rparr>)"
  by (induction ks) (auto simp: conn_lpop_def split: list.splits)

lemma Queue_lpop_backlog:
  assumes "Queue_lpop ks t s = (Inr (Some (k, x)), s1)"
  shows "backlog ks s1 < backlog ks s"
proof (cases t)
  case None
  with assms have "lpop_each ks s = (Some (k, x), s1)"
    by (auto simp: Queue_lpop_def split: prod.splits option.splits)
  from lpop_each_served [OF this] show ?thesis by (auto simp: backlog_pop)
next
  case (Some n)
  with assms have "conn_blpop ks n s = (Some (k, x), s1)"
    by (auto simp: Queue_lpop_def split: prod.splits option.splits if_splits)
  from conn_blpop_served [OF this] show ?thesis by (auto simp: backlog_pop)
qed

text \<open>
  \<^verbatim>\<open>Queue.dequeue_any\<close>. An ID whose record is gone is dropped and the call starts again; a
  record that does not deserialize is reported with the job ID and the queue attached.
\<close>

function dequeue_any ::
  "queue list \<Rightarrow> int option \<Rightarrow> store \<Rightarrow> (Job \<times> queue) option result" where
  "dequeue_any queues t s =
     (case Queue_lpop (map key queues) t s of
        (Inl e, s1) \<Rightarrow> (Inl e, s1)
      | (Inr None, s1) \<Rightarrow> (Inr None, s1)
      | (Inr (Some (queue_key, i)), s1) \<Rightarrow>
          (case from_queue_key queue_key of
             Inl e \<Rightarrow> (Inl e, s1)
           | Inr queue \<Rightarrow>
               (case Job_fetch i s1 of
                  Inl NoSuchJobError \<Rightarrow> dequeue_any queues t s1
                | Inl (UnpickleError _) \<Rightarrow> (Inl (UnpickleError (Some (i, queue))), s1)
                | Inl e \<Rightarrow> (Inl e, s1)
                | Inr job \<Rightarrow> (Inr (Some (job, queue)), s1))))"
  by pat_completeness auto
termination
proof (relation "measure (\<lambda>(queues, t, s). backlog (map key queues) s)")
  show "wf (measure (\<lambda>(queues, t, s). backlog (map key queues) s))"
    by simp
next
  fix queues :: "queue list" and t :: "int option" and s s1 :: store
    and x y z and queue_key i :: string
  assume "(x, s1) = Queue_lpop (map key queues) t s" and "x = Inr y" and "y = Some z"
    and "(queue_key, i) = z"
  then have "Queue_lpop (map key queues) t s = (Inr (Some (queue_key, i)), s1)"
    by simp
  from Queue_lpop_backlog [OF this]
  show "((queues, t, s1), (queues, t, s)) \<in> measure (\<lambda>(queues, t, s). backlog (map key queues) s)"
    by simp
qed

declare dequeue_any.simps [simp del]

text \<open>
  \<^verbatim>\<open>Queue.compact\<close>. \<open>uuid\<close> is the text of the random \<^verbatim>\<open>uuid.uuid4()\<close> that names the scratch
  key. The loop pops the scratch key and pushes onto the queue's own key, so nothing in its
  shape bounds it: it is a partial function, and not returning is the value \<open>None\<close>.
\<close>

definition COMPACT_QUEUE :: "string \<Rightarrow> string" where
  "COMPACT_QUEUE uuid = redis_queue_namespace_prefix @ ''_compact:'' @ uuid"

partial_function (option) compact_loop :: "queue \<Rightarrow> string \<Rightarrow> store \<Rightarrow> store option" where
  "compact_loop self cq s =
     (case conn_lpop cq s of
        (None, s1) \<Rightarrow> Some s1
      | (Some i, s1) \<Rightarrow>
          (if Job_exists i s1 then compact_loop self cq (conn_rpush (key self) i s1)
           else compact_loop self cq s1))"

definition compact :: "string \<Rightarrow> queue \<Rightarrow> store \<Rightarrow> unit result option" where
  "compact uuid self s =
     (case conn_rename (key self) (COMPACT_QUEUE uuid) s of
        (Inl e, s1) \<Rightarrow> Some (Inl e, s1)
      | (Inr _, s1) \<Rightarrow>
          map_option (\<lambda>s2. (Inr (), s2)) (compact_loop self (COMPACT_QUEUE uuid) s1))"

section \<open>Releasing a deferred job\<close>

text \<open>The optional second argument of \<^verbatim>\<open>release_job\<close>: a queue or the name of one.\<close>

datatype queue_or_name = AQueue queue | AName string

text \<open>
  The statements of \<^verbatim>\<open>release_job\<close> that follow its \<^verbatim>\<open>if True: return\<close>: the loop over the
  members of the released job's reverse-dependency set.
\<close>

fun activate_dependents ::
  "(Job \<Rightarrow> Job) \<Rightarrow> nat \<Rightarrow> queue \<Rightarrow> Job \<Rightarrow> string list \<Rightarrow> store \<Rightarrow> unit result" where
  "activate_dependents perform now queue job [] s = (Inr (), s)"
| "activate_dependents perform now queue job (a_job_id # rest) s =
     (case Job_fetch a_job_id s of
        Inl e \<Rightarrow> (Inl e, s)
      | Inr fetched \<Rightarrow>
          (let a_job = fetched\<lparr>status := QUEUED\<rparr>;
               s1 = save job s;
               a_queue = (if origin a_job \<noteq> name queue then Queue_init (origin a_job)
                          else queue)
           in activate_dependents perform now queue job rest
                (snd (enqueue_job perform now a_queue a_job True s1))))"

text \<open>
  The block of \<^verbatim>\<open>release_job\<close> that gets the associated queue: the queue named by the job's
  origin when no second argument is given, the argument when it is a queue, and the queue
  of that name when it is a string.
\<close>

definition associated_queue :: "queue_or_name option \<Rightarrow> Job \<Rightarrow> queue" where
  "associated_queue queue_or_name job =
     (case queue_or_name of
        None \<Rightarrow> Queue_init (origin job)
      | Some (AQueue q) \<Rightarrow> q
      | Some (AName n) \<Rightarrow> Queue_init (Some n))"

definition release_job ::
  "(Job \<Rightarrow> Job) \<Rightarrow> nat \<Rightarrow> job_or_id \<Rightarrow> queue_or_name option \<Rightarrow> store \<Rightarrow> unit result" where
  "release_job perform now job_or_id queue_or_name s =
     (case (case job_or_id of
              AnId i \<Rightarrow> (if Job_exists i s then Job_fetch i s else Inl NoSuchJobError)
            | AJob j \<Rightarrow> Inr j) of
        Inl e \<Rightarrow> (Inl e, s)
      | Inr job \<Rightarrow>
          (if \<not> is_deferred job then (Inl InvalidJobOperationError, s)
           else
             (let queue = associated_queue queue_or_name job
              in case conn_srem ''rq:deferred'' (job_id job) s of
                   (result, s1) \<Rightarrow>
                     (if result = 0 then (Inl NoSuchJobError, s1)
                      else
                        (let job1 = job\<lparr>status := QUEUED\<rparr>;
                             s2 = save job1 s1
                         in case enqueue_job perform now queue job1 True s2 of
                              (job2, s3) \<Rightarrow>
                                (if True then (Inr (), s3)
                                 else if conn_scard (dependents_key job2) s3 > 0
                                 then activate_dependents perform now queue job2
                                        (conn_smembers (dependents_key job2) s3) s3
                                 else (Inr (), s3)))))))"

section \<open>The failed queue\<close>

text \<open>\<^verbatim>\<open>FailedQueue()\<close>: the queue named by the string form of \<open>FAILED\<close>.\<close>

definition FailedQueue_init :: queue where
  "FailedQueue_init = Queue_init (Some ''failed'')"

definition quarantine ::
  "(Job \<Rightarrow> Job) \<Rightarrow> nat \<Rightarrow> queue \<Rightarrow> Job \<Rightarrow> string option \<Rightarrow> store \<Rightarrow> Job \<times> store" where
  "quarantine perform now self job e s =
     enqueue_job perform now self (job\<lparr>ended_at := Some now, exc_info := e\<rparr>) False s"

definition requeue :: "(Job \<Rightarrow> Job) \<Rightarrow> nat \<Rightarrow> queue \<Rightarrow> string \<Rightarrow> store \<Rightarrow> unit result" where
  "requeue perform now self i s =
     (case Job_fetch i s of
        Inl NoSuchJobError \<Rightarrow> (Inr (), snd (queue_remove self (AnId i) s))
      | Inl e \<Rightarrow> (Inl e, s)
      | Inr job \<Rightarrow>
          (case queue_remove self (AJob job) s of
             (n, s1) \<Rightarrow>
               (if n = 0 then (Inl InvalidJobOperationError, s1)
                else
                  (let job1 = job\<lparr>status := QUEUED, exc_info := None\<rparr>;
                       q = Queue_init (origin job1)
                   in (Inr (), snd (enqueue_job perform now q job1 True s1))))))"

section \<open>Equality and ordering of queues\<close>

text \<open>
  The values a queue may be compared with: an instance of \<^verbatim>\<open>Queue\<close> or of one of its
  subclasses, or anything else.
\<close>

datatype pyobj = QueueObj queue | JobObj Job | StrObj string | IntObj int | NoneObj

fun isinstance_Queue :: "pyobj \<Rightarrow> bool" where
  "isinstance_Queue (QueueObj _) = True"
| "isinstance_Queue _ = False"

fun Queue_eq :: "queue \<Rightarrow> pyobj \<Rightarrow> error + bool" where
  "Queue_eq self (QueueObj other) = Inr (name self = name other)"
| "Queue_eq self _ = Inl TypeError"

fun Queue_lt :: "queue \<Rightarrow> pyobj \<Rightarrow> error + bool" where
  "Queue_lt self (QueueObj other) = Inr (name self < name other)"
| "Queue_lt self _ = Inl TypeError"

section \<open>Stores of the test suite\<close>

text \<open>
  A job as the tests create it before any queue has touched it: an ID, a status, and no
  other metadata. A store is built from the empty one by writing lists, sets and records.
\<close>

definition blank_job :: "string \<Rightarrow> Status \<Rightarrow> Job" where
  "blank_job i st =
     \<lparr>job_id = i, status = st, origin = None, timeout = None, exc_info = None,
      enqueued_at = None, ended_at = None, dependencies = []\<rparr>"

definition with_list :: "string \<Rightarrow> string list \<Rightarrow> store \<Rightarrow> store" where
  "with_list k xs s = s\<lparr>store_lists := (store_lists s)(k := xs)\<rparr>"

definition with_set :: "string \<Rightarrow> string list \<Rightarrow> store \<Rightarrow> store" where
  "with_set k xs s = s\<lparr>store_sets := (store_sets s)(k := xs)\<rparr>"

text \<open>
  A store with a deferred job \<open>j\<close> of queue \<open>1\<close>, a queued job \<open>k\<close>, a finished job \<open>p\<close>, and a
  job \<open>c\<close> that waits on \<open>j\<close> and \<open>p\<close> and is registered in the reverse-dependency set of \<open>j\<close>.
\<close>

definition deferred_store :: store where
  "deferred_store =
     with_set ''rq:deferred'' [''j'']
       (with_set ''rq:job:j:dependents'' [''c'']
          (save ((blank_job ''j'' DEFERRED)\<lparr>origin := Some ''1''\<rparr>)
             (save (blank_job ''k'' QUEUED)
                (save (blank_job ''p'' FINISHED)
                   (save ((blank_job ''c'' DEFERRED)
                            \<lparr>origin := Some ''1'', dependencies := [''j'', ''p'']\<rparr>)
                      empty_store)))))"

text \<open>
  A store with a finished job \<open>p\<close>, a started job \<open>p2\<close>, and a job \<open>c\<close> that waits on both and
  is registered in the reverse-dependency set of \<open>p\<close>.
\<close>

definition dependents_store :: store where
  "dependents_store =
     with_set ''rq:job:p:dependents'' [''c'']
       (save (blank_job ''p'' FINISHED)
          (save (blank_job ''p2'' STARTED)
             (save ((blank_job ''c'' DEFERRED)\<lparr>dependencies := [''p'', ''p2'']\<rparr>)
                empty_store)))"

section \<open>Comparing a queue with something that is not a queue\<close>

text \<open>
  C10. For every queue \<open>q\<close> and every value \<open>x\<close> that is not an instance of \<^verbatim>\<open>Queue\<close> or of a
  subclass, both \<open>q == x\<close> and \<open>q < x\<close> raise \<open>TypeError\<close>; neither returns a truth value.
\<close>

theorem queue_compare_non_queue:
  "\<not> isinstance_Queue x \<Longrightarrow>
     Queue_eq q x = Inl TypeError \<and> Queue_lt q x = Inl TypeError
     \<and> (\<forall>b. Queue_eq q x \<noteq> Inr b) \<and> (\<forall>b. Queue_lt q x \<noteq> Inr b)"
  by (cases x) simp_all

theorem queue_compare_non_queue_witness:
  "\<not> isinstance_Queue (StrObj ''default'')
   \<and> Queue_eq (Queue_init (Some ''default'')) (StrObj ''default'') = Inl TypeError
   \<and> Queue_lt (Queue_init (Some ''default'')) (StrObj ''default'') = Inl TypeError"
  using queue_compare_non_queue [of "StrObj ''default''" "Queue_init (Some ''default'')"]
  by simp

section \<open>Removing an ID from a queue\<close>

text \<open>
  C8, as amended. For every queue and every job or job ID, \<^verbatim>\<open>remove\<close> deletes all occurrences of
  that ID from the queue's FIFO list and returns the number of occurrences it deleted: 0
  exactly when the ID was absent, and more than 1 when the ID occurred more than once.
\<close>

theorem queue_remove_counts_occurrences:
  "fst (queue_remove q x s)
     = count_list (store_lists s (key q)) (case x of AJob j \<Rightarrow> job_id j | AnId i \<Rightarrow> i)
   \<and> store_lists (snd (queue_remove q x s)) (key q)
     = removeAll (case x of AJob j \<Rightarrow> job_id j | AnId i \<Rightarrow> i) (store_lists s (key q))
   \<and> (case x of AJob j \<Rightarrow> job_id j | AnId i \<Rightarrow> i)
       \<notin> set (store_lists (snd (queue_remove q x s)) (key q))
   \<and> (fst (queue_remove q x s) = 0)
     = ((case x of AJob j \<Rightarrow> job_id j | AnId i \<Rightarrow> i) \<notin> set (store_lists s (key q)))"
  by (simp add: queue_remove_def conn_lrem_def Let_def count_list_0_iff)

text \<open>
  C8 as stated fails: on the list \<open>a, b, a\<close> the call \<^verbatim>\<open>remove('a')\<close> returns 2, which is
  neither 0 nor 1.
\<close>

theorem queue_remove_count_counterexample:
  "store_lists (with_list ''rq:queue:example'' [''a'', ''b'', ''a''] empty_store)
      (key (Queue_init (Some ''example''))) = [''a'', ''b'', ''a'']
   \<and> fst (queue_remove (Queue_init (Some ''example'')) (AnId ''a'')
         (with_list ''rq:queue:example'' [''a'', ''b'', ''a''] empty_store)) = 2
   \<and> fst (queue_remove (Queue_init (Some ''example'')) (AnId ''a'')
         (with_list ''rq:queue:example'' [''a'', ''b'', ''a''] empty_store)) \<notin> {0, 1}"
  by (simp add: queue_remove_def conn_lrem_def Let_def key_def Queue_init_def py_str_def
      redis_queue_namespace_prefix_def empty_store_def with_list_def)

section \<open>Requeueing an ID that has no record\<close>

text \<open>
  C9, as amended. For every job ID with no backing Job Record, \<^verbatim>\<open>FailedQueue.requeue\<close> returns
  without raising, deletes every occurrence of that ID from the failed queue's FIFO list,
  and leaves all other state unchanged.
\<close>

theorem requeue_missing_removes:
  "store_jobs s i = None \<Longrightarrow>
     requeue perform now self i s
       = (Inr (), s\<lparr>store_lists :=
             (store_lists s)(key self := removeAll i (store_lists s (key self)))\<rparr>)"
  by (simp add: requeue_def Job_fetch_def queue_remove_def conn_lrem_def)

theorem requeue_missing_removes_witness:
  "store_jobs (with_list ''rq:queue:failed'' [''x'', ''y'', ''x''] empty_store) ''x'' = None
   \<and> fst (requeue (\<lambda>j. j) 7 FailedQueue_init ''x''
          (with_list ''rq:queue:failed'' [''x'', ''y'', ''x''] empty_store)) = Inr ()
   \<and> store_lists (snd (requeue (\<lambda>j. j) 7 FailedQueue_init ''x''
          (with_list ''rq:queue:failed'' [''x'', ''y'', ''x''] empty_store)))
        ''rq:queue:failed'' = [''y'']"
  using requeue_missing_removes [of "with_list ''rq:queue:failed'' [''x'', ''y'', ''x''] empty_store"
      "''x''" "\<lambda>j. j" 7 FailedQueue_init]
  by (simp add: key_def FailedQueue_init_def Queue_init_def py_str_def
      redis_queue_namespace_prefix_def empty_store_def with_list_def)

text \<open>
  C9 as stated fails: with the failed list holding only the ID \<open>x\<close>, which has no record,
  \<^verbatim>\<open>requeue('x')\<close> returns and the list is no longer what it was.
\<close>

theorem requeue_missing_counterexample:
  "store_jobs (with_list ''rq:queue:failed'' [''x''] empty_store) ''x'' = None
   \<and> fst (requeue (\<lambda>j. j) 0 FailedQueue_init ''x''
          (with_list ''rq:queue:failed'' [''x''] empty_store)) = Inr ()
   \<and> store_lists (snd (requeue (\<lambda>j. j) 0 FailedQueue_init ''x''
          (with_list ''rq:queue:failed'' [''x''] empty_store))) (key FailedQueue_init)
       \<noteq> store_lists (with_list ''rq:queue:failed'' [''x''] empty_store) (key FailedQueue_init)"
  by (simp add: requeue_def Job_fetch_def queue_remove_def conn_lrem_def key_def
      FailedQueue_init_def Queue_init_def py_str_def redis_queue_namespace_prefix_def
      empty_store_def with_list_def)

section \<open>Multi-queue dequeue: the timeout\<close>

lemma conn_blpop_all_empty:
  "\<forall>k\<in>set ks. store_lists s k = [] \<Longrightarrow> conn_blpop ks n s = (None, s)"
  by (induction ks) auto

lemma lpop_each_all_empty:
  "\<forall>k\<in>set ks. store_lists s k = [] \<Longrightarrow> lpop_each ks s = (None, s)"
  by (induction ks) (auto simp: conn_lpop_def)

text \<open>
  C5. For every list of queues, \<^verbatim>\<open>dequeue_any(queues, 0)\<close> fails with \<open>ValueError\<close> and pops
  nothing (the store is returned as it was); and with a positive timeout, when no job
  arrives before expiry (every list stays empty), it fails with \<open>DequeueTimeout\<close> carrying
  the timeout and the queue keys.
\<close>

theorem dequeue_any_zero_and_expiry:
  "dequeue_any queues (Some 0) s = (Inl ValueError, s)
   \<and> (0 < n \<and> (\<forall>q\<in>set queues. store_lists s (key q) = []) \<longrightarrow>
        dequeue_any queues (Some n) s = (Inl (DequeueTimeout n (map key queues)), s))"
  by (simp add: dequeue_any.simps Queue_lpop_def conn_blpop_all_empty)

theorem dequeue_any_zero_and_expiry_witness:
  "dequeue_any [Queue_init (Some ''foo''), Queue_init (Some ''bar'')] (Some 0)
       (with_list ''rq:queue:baz'' [''j''] empty_store)
     = (Inl ValueError, with_list ''rq:queue:baz'' [''j''] empty_store)
   \<and> (0::int) < 5
   \<and> store_lists (with_list ''rq:queue:baz'' [''j''] empty_store)
        (key (Queue_init (Some ''foo''))) = []
   \<and> store_lists (with_list ''rq:queue:baz'' [''j''] empty_store)
        (key (Queue_init (Some ''bar''))) = []
   \<and> dequeue_any [Queue_init (Some ''foo''), Queue_init (Some ''bar'')] (Some 5)
       (with_list ''rq:queue:baz'' [''j''] empty_store)
     = (Inl (DequeueTimeout 5 [''rq:queue:foo'', ''rq:queue:bar'']),
        with_list ''rq:queue:baz'' [''j''] empty_store)"
  using dequeue_any_zero_and_expiry
    [of "[Queue_init (Some ''foo''), Queue_init (Some ''bar'')]"
        "with_list ''rq:queue:baz'' [''j''] empty_store" 5]
  by (simp add: key_def Queue_init_def py_str_def redis_queue_namespace_prefix_def
      empty_store_def with_list_def)

section \<open>Compaction\<close>

lemma Job_exists_store_lists:
  "Job_exists i (s\<lparr>store_lists := l\<rparr>) = Job_exists i s"
  by (simp add: Job_exists_def)

lemma store_lists_update_eq:
  "f = g \<Longrightarrow> s\<lparr>store_lists := f\<rparr> = s\<lparr>store_lists := g\<rparr>"
  by simp

text \<open>
  The loop, started with the scratch list \<open>xs\<close>, returns: it has emptied the scratch key and
  appended to the queue's key the IDs of \<open>xs\<close> that have a record, in the order of \<open>xs\<close>.
\<close>

lemma compact_loop_drains:
  "cq \<noteq> key self \<Longrightarrow> store_lists s cq = xs \<Longrightarrow>
     compact_loop self cq s
       = Some (s\<lparr>store_lists := (store_lists s)
                 (cq := [],
                  key self := store_lists s (key self) @ filter (\<lambda>i. Job_exists i s) xs)\<rparr>)"
proof (induction xs arbitrary: s)
  case Nil
  then have "(store_lists s)(cq := [], key self := store_lists s (key self)) = store_lists s"
    by (auto simp: fun_eq_iff)
  with Nil show ?case
    by (subst compact_loop.simps) (simp add: conn_lpop_def)
next
  case (Cons x xs)
  let ?s1 = "s\<lparr>store_lists := (store_lists s)(cq := xs)\<rparr>"
  have pop: "conn_lpop cq s = (Some x, ?s1)"
    using Cons.prems by (simp add: conn_lpop_def)
  show ?case
  proof (cases "Job_exists x s")
    case True
    let ?s2 = "conn_rpush (key self) x ?s1"
    have "store_lists ?s2 cq = xs"
      using Cons.prems by (simp add: conn_rpush_def)
    from Cons.IH [OF Cons.prems(1) this]
    have "compact_loop self cq ?s2
            = Some (?s2\<lparr>store_lists := (store_lists ?s2)
                 (cq := [],
                  key self := store_lists ?s2 (key self) @ filter (\<lambda>i. Job_exists i ?s2) xs)\<rparr>)" .
    moreover have "compact_loop self cq s = compact_loop self cq ?s2"
      using True by (subst compact_loop.simps) (simp add: pop Job_exists_store_lists)
    moreover have "(\<lambda>i. Job_exists i ?s2) = (\<lambda>i. Job_exists i s)"
      by (simp add: conn_rpush_def Job_exists_store_lists)
    ultimately show ?thesis
      using True Cons.prems(1)
      by (auto simp: conn_rpush_def fun_eq_iff intro!: store_lists_update_eq)
  next
    case False
    have "store_lists ?s1 cq = xs"
      by simp
    from Cons.IH [OF Cons.prems(1) this]
    have "compact_loop self cq ?s1
            = Some (?s1\<lparr>store_lists := (store_lists ?s1)
                 (cq := [],
                  key self := store_lists ?s1 (key self) @ filter (\<lambda>i. Job_exists i ?s1) xs)\<rparr>)" .
    moreover have "compact_loop self cq s = compact_loop self cq ?s1"
      using False by (subst compact_loop.simps) (simp add: pop Job_exists_store_lists)
    ultimately show ?thesis
      using False Cons.prems(1)
      by (auto simp: Job_exists_store_lists fun_eq_iff intro!: store_lists_update_eq)
  qed
qed

text \<open>
  C7. For every queue, \<^verbatim>\<open>compact()\<close> removes from the FIFO list exactly the entries whose
  backing Job Record no longer exists; the entries with a record are all kept, in their
  relative FIFO order. The scratch key is named by a fresh random UUID, so it is not the
  queue's own key. The call returns: normally on a list with entries, and with the Store's
  error for renaming a key that does not exist on an empty list, which it leaves empty.
\<close>

theorem compact_keeps_extant_in_order:
  assumes "key self \<noteq> COMPACT_QUEUE uuid"
  shows "\<exists>r s'. compact uuid self s = Some (r, s')
           \<and> r = (if store_lists s (key self) = [] then Inl ResponseError else Inr ())
           \<and> store_lists s' (key self)
               = filter (\<lambda>i. Job_exists i s) (store_lists s (key self))
           \<and> store_jobs s' = store_jobs s"
proof (cases "store_lists s (key self) = []")
  case True
  then show ?thesis by (simp add: compact_def conn_rename_def)
next
  case False
  let ?cq = "COMPACT_QUEUE uuid"
  let ?s1 = "s\<lparr>store_lists := (store_lists s)(key self := [], ?cq := store_lists s (key self))\<rparr>"
  have ren: "conn_rename (key self) ?cq s = (Inr (), ?s1)"
    using False by (simp add: conn_rename_def)
  have "store_lists ?s1 ?cq = store_lists s (key self)"
    by simp
  from compact_loop_drains [OF assms [symmetric] this]
  show ?thesis
    using assms False by (simp add: compact_def ren Job_exists_store_lists)
qed

theorem compact_keeps_extant_in_order_witness:
  "key (Queue_init (Some ''default'')) \<noteq> COMPACT_QUEUE ''49f205ab''
   \<and> (\<exists>r s'. compact ''49f205ab'' (Queue_init (Some ''default''))
                (with_list ''rq:queue:default'' [''2'', ''1'', ''alice'', ''charlie'']
                   (save (blank_job ''alice'' QUEUED)
                      (save (blank_job ''charlie'' QUEUED) empty_store)))
              = Some (r, s')
            \<and> r = Inr ()
            \<and> store_lists s' ''rq:queue:default'' = [''alice'', ''charlie''])"
  using compact_keeps_extant_in_order
    [of "Queue_init (Some ''default'')" "''49f205ab''"
        "with_list ''rq:queue:default'' [''2'', ''1'', ''alice'', ''charlie'']
           (save (blank_job ''alice'' QUEUED)
              (save (blank_job ''charlie'' QUEUED) empty_store))"]
  by (auto simp: key_def COMPACT_QUEUE_def Queue_init_def py_str_def
      redis_queue_namespace_prefix_def empty_store_def with_list_def save_def blank_job_def
      Job_exists_def)

section \<open>Releasing a deferred job: outcomes and dependents\<close>

lemma conn_srem_absent:
  "v \<notin> set (store_sets s k) \<Longrightarrow> conn_srem k v s = (0, s)"
  by (simp add: conn_srem_def)

lemma conn_srem_present:
  "v \<in> set (store_sets s k) \<Longrightarrow>
     conn_srem k v s = (1, s\<lparr>store_sets := (store_sets s)(k := removeAll v (store_sets s k))\<rparr>)"
  by (simp add: conn_srem_def)

text \<open>What \<^verbatim>\<open>enqueue_job\<close> leaves in the Store when the queue is asynchronous.\<close>

lemma enqueue_job_async:
  assumes "async self"
  shows "snd (enqueue_job perform now self job set_meta_data s)
    = s\<lparr>store_lists := (store_lists s)(key self := store_lists s (key self) @ [job_id job]),
        store_sets := store_sets (conn_sadd redis_queues_keys (key self) s),
        store_jobs := (store_jobs s)(job_id job \<mapsto>
                         Pickled (fst (enqueue_job perform now self job set_meta_data s)))\<rparr>"
  using assms
  by (simp add: enqueue_job_def Let_def save_def push_job_id_def conn_rpush_def conn_sadd_def)

lemma enqueue_job_async_job:
  assumes "async self"
  shows "fst (enqueue_job perform now self job True s)
    = job\<lparr>origin := name self, enqueued_at := Some now,
          timeout := Some (case timeout job of None \<Rightarrow> DEFAULT_TIMEOUT | Some t \<Rightarrow> t)\<rparr>"
  using assms by (cases "timeout job") (simp_all add: enqueue_job_def Let_def)

text \<open>
  The job that \<^verbatim>\<open>release_job\<close> works on: the instance it was given, or the record loaded for
  the ID it was given.
\<close>

lemma release_job_resolved:
  assumes "x = AJob job \<or> (\<exists>j0. x = AnId i \<and> store_jobs s i = Some (Pickled j0)
                               \<and> job = j0\<lparr>job_id := i\<rparr>)"
  shows "release_job perform now x qn s =
           (if status job \<noteq> DEFERRED then (Inl InvalidJobOperationError, s)
            else if job_id job \<notin> set (store_sets s ''rq:deferred'') then (Inl NoSuchJobError, s)
            else (Inr (), snd (enqueue_job perform now (associated_queue qn job)
                                 (job\<lparr>status := QUEUED\<rparr>) True
                                 (save (job\<lparr>status := QUEUED\<rparr>)
                                    (snd (conn_srem ''rq:deferred'' (job_id job) s))))))"
proof -
  from assms have resolved:
    "(case x of AnId i \<Rightarrow> (if Job_exists i s then Job_fetch i s else Inl NoSuchJobError)
              | AJob j \<Rightarrow> Inr j) = Inr job"
    by (auto simp: Job_exists_def Job_fetch_def)
  show ?thesis
    by (simp add: release_job_def resolved is_deferred_def conn_srem_absent conn_srem_present
        Let_def split: prod.splits)
qed

lemma deferred_not_registry:
  "''rq:deferred'' \<noteq> redis_queues_keys"
  by (simp add: redis_queues_keys_def)

text \<open>What \<^verbatim>\<open>enqueue_job\<close> leaves in the Store, field by field, in either mode of the queue.\<close>

lemma enqueue_job_lists:
  "store_lists (snd (enqueue_job perform now self job set_meta_data s))
     = (if async self then (store_lists s)(key self := store_lists s (key self) @ [job_id job])
        else store_lists s)"
  by (simp add: enqueue_job_def Let_def save_def push_job_id_def conn_rpush_def conn_sadd_def)

lemma enqueue_job_sets:
  "store_sets (snd (enqueue_job perform now self job set_meta_data s))
     = store_sets (conn_sadd redis_queues_keys (key self) s)"
  by (simp add: enqueue_job_def Let_def save_def push_job_id_def conn_rpush_def)

lemma timeout_update_same:
  "timeout j = Some a \<Longrightarrow> j\<lparr>timeout := Some a\<rparr> = j"
  by (cases j) simp

lemma enqueue_job_jobs:
  assumes "queued = job\<lparr>origin := name self, enqueued_at := Some now,
                       timeout := Some (case timeout job of None \<Rightarrow> DEFAULT_TIMEOUT
                                        | Some t \<Rightarrow> t)\<rparr>"
  shows "store_jobs (snd (enqueue_job perform now self job True s))
     = (if async self then (store_jobs s)(job_id job \<mapsto> Pickled queued)
        else (store_jobs s)(job_id job \<mapsto> Pickled queued,
                            job_id (perform queued) \<mapsto> Pickled (perform queued)))"
  unfolding assms
  by (cases "timeout job")
     (simp_all add: enqueue_job_def Let_def save_def push_job_id_def conn_rpush_def
        conn_sadd_def timeout_update_same)

lemma store_sets_conn_sadd_other:
  "k \<noteq> r \<Longrightarrow> store_sets (conn_sadd r v s) k = store_sets s k"
  by (simp add: conn_sadd_def)

lemma Queue_init_sel:
  "name (Queue_init n) = n" "async (Queue_init n)" "default_timeout (Queue_init n) = None"
  by (simp_all add: Queue_init_def)

lemma registered_after_sadd:
  "v \<in> set (store_sets (conn_sadd k v s) k)"
  by (simp add: conn_sadd_def)

text \<open>
  C3. \<^verbatim>\<open>release_job(job_or_id, target?)\<close> fails with \<open>NoSuchJobError\<close> when given an ID with
  no backing record; fails with \<open>InvalidJobOperationError\<close> when the resolved job's status is
  not \<open>DEFERRED\<close>; fails with \<open>NoSuchJobError\<close> when the job's ID is not a member of the
  Deferred Set at removal time; and otherwise takes the ID out of the Deferred Set, sets
  the status to \<open>QUEUED\<close>, persists the job and enqueues it into the target queue, which
  is the argument if one is supplied (a queue, or the name of one) and else the queue
  named by the job's origin. Enqueueing registers the target's key, stamps the job with the
  target's name and the time, and persists it; then an asynchronous target gets the ID at
  the tail of its FIFO list, and a synchronous one has the job executed at once and the
  outcome persisted. The resolved job is the instance passed in, or the record loaded for
  the ID passed in.
\<close>

theorem release_job_outcomes:
  "(store_jobs s i = None \<longrightarrow>
      release_job perform now (AnId i) qn s = (Inl NoSuchJobError, s))
   \<and> ((x = AJob job \<or> (\<exists>j0. x = AnId i \<and> store_jobs s i = Some (Pickled j0)
                              \<and> job = j0\<lparr>job_id := i\<rparr>)) \<longrightarrow>
        (status job \<noteq> DEFERRED \<longrightarrow>
           release_job perform now x qn s = (Inl InvalidJobOperationError, s))
      \<and> (status job = DEFERRED \<and> job_id job \<notin> set (store_sets s ''rq:deferred'') \<longrightarrow>
           release_job perform now x qn s = (Inl NoSuchJobError, s))
      \<and> (status job = DEFERRED \<and> job_id job \<in> set (store_sets s ''rq:deferred'')
          \<and> target = (case qn of
                         None \<Rightarrow> Queue_init (origin job)
                       | Some (AQueue q) \<Rightarrow> q
                       | Some (AName n) \<Rightarrow> Queue_init (Some n))
          \<and> queued = job\<lparr>status := QUEUED, origin := name target, enqueued_at := Some now,
                        timeout := Some (case timeout job of None \<Rightarrow> DEFAULT_TIMEOUT
                                         | Some t \<Rightarrow> t)\<rparr> \<longrightarrow>
           fst (release_job perform now x qn s) = Inr ()
         \<and> store_sets (snd (release_job perform now x qn s)) ''rq:deferred''
             = removeAll (job_id job) (store_sets s ''rq:deferred'')
         \<and> job_id job \<notin> set (store_sets (snd (release_job perform now x qn s)) ''rq:deferred'')
         \<and> key target \<in> set (store_sets (snd (release_job perform now x qn s))
                                 redis_queues_keys)
         \<and> status queued = QUEUED
         \<and> store_jobs (snd (release_job perform now x qn s))
             = (if async target then (store_jobs s)(job_id job \<mapsto> Pickled queued)
                else (store_jobs s)(job_id job \<mapsto> Pickled queued,
                                    job_id (perform queued) \<mapsto> Pickled (perform queued)))
         \<and> store_lists (snd (release_job perform now x qn s))
             = (if async target
                then (store_lists s)(key target := store_lists s (key target) @ [job_id job])
                else store_lists s)))"
proof (intro conjI impI)
  assume "store_jobs s i = None"
  then show "release_job perform now (AnId i) qn s = (Inl NoSuchJobError, s)"
    by (simp add: release_job_def Job_exists_def)
next
  assume "x = AJob job \<or> (\<exists>j0. x = AnId i \<and> store_jobs s i = Some (Pickled j0)
                                   \<and> job = j0\<lparr>job_id := i\<rparr>)"
    and "status job \<noteq> DEFERRED"
  then show "release_job perform now x qn s = (Inl InvalidJobOperationError, s)"
    by (simp add: release_job_resolved)
next
  assume "x = AJob job \<or> (\<exists>j0. x = AnId i \<and> store_jobs s i = Some (Pickled j0)
                                   \<and> job = j0\<lparr>job_id := i\<rparr>)"
    and "status job = DEFERRED \<and> job_id job \<notin> set (store_sets s ''rq:deferred'')"
  then show "release_job perform now x qn s = (Inl NoSuchJobError, s)"
    by (simp add: release_job_resolved)
next
  assume res: "x = AJob job \<or> (\<exists>j0. x = AnId i \<and> store_jobs s i = Some (Pickled j0)
                                   \<and> job = j0\<lparr>job_id := i\<rparr>)"
    and a: "status job = DEFERRED \<and> job_id job \<in> set (store_sets s ''rq:deferred'')
          \<and> target = (case qn of
                         None \<Rightarrow> Queue_init (origin job)
                       | Some (AQueue q) \<Rightarrow> q
                       | Some (AName n) \<Rightarrow> Queue_init (Some n))
          \<and> queued = job\<lparr>status := QUEUED, origin := name target, enqueued_at := Some now,
                        timeout := Some (case timeout job of None \<Rightarrow> DEFAULT_TIMEOUT
                                         | Some t \<Rightarrow> t)\<rparr>"
  define job1 where "job1 = job\<lparr>status := QUEUED\<rparr>"
  define s1 where "s1 = s\<lparr>store_sets := (store_sets s)
                     (''rq:deferred'' := removeAll (job_id job) (store_sets s ''rq:deferred''))\<rparr>"
  have tq: "associated_queue qn job = target"
    using a by (simp add: associated_queue_def)
  have rel: "release_job perform now x qn s
               = (Inr (), snd (enqueue_job perform now target job1 True (save job1 s1)))"
    using a
    by (simp add: release_job_resolved [OF res] tq job1_def s1_def conn_srem_present)
  have j2: "queued = job1\<lparr>origin := name target, enqueued_at := Some now,
                        timeout := Some (case timeout job1 of None \<Rightarrow> DEFAULT_TIMEOUT
                                         | Some t \<Rightarrow> t)\<rparr>"
    using a by (simp add: job1_def)
  have id1: "job_id job1 = job_id job"
    by (simp add: job1_def)
  have sets: "store_sets (snd (release_job perform now x qn s))
                = store_sets (conn_sadd redis_queues_keys (key target) (save job1 s1))"
    by (simp add: rel enqueue_job_sets)
  show "fst (release_job perform now x qn s) = Inr ()"
    by (simp add: rel)
  show "store_sets (snd (release_job perform now x qn s)) ''rq:deferred''
          = removeAll (job_id job) (store_sets s ''rq:deferred'')"
    by (simp add: sets store_sets_conn_sadd_other [OF deferred_not_registry] save_def s1_def)
  then show "job_id job \<notin> set (store_sets (snd (release_job perform now x qn s))
                                  ''rq:deferred'')"
    by simp
  show "key target \<in> set (store_sets (snd (release_job perform now x qn s))
                            redis_queues_keys)"
    by (simp add: sets registered_after_sadd)
  show "status queued = QUEUED"
    using a by simp
  show "store_jobs (snd (release_job perform now x qn s))
          = (if async target then (store_jobs s)(job_id job \<mapsto> Pickled queued)
             else (store_jobs s)(job_id job \<mapsto> Pickled queued,
                                 job_id (perform queued) \<mapsto> Pickled (perform queued)))"
    by (simp add: rel enqueue_job_jobs [OF j2] id1 save_def s1_def)
  show "store_lists (snd (release_job perform now x qn s))
          = (if async target
             then (store_lists s)(key target := store_lists s (key target) @ [job_id job])
             else store_lists s)"
    by (simp add: rel enqueue_job_lists id1 save_def s1_def)
qed

theorem release_job_outcomes_witness:
  "store_jobs deferred_store ''nope'' = None
   \<and> fst (release_job (\<lambda>j. j) 0 (AnId ''nope'') None deferred_store) = Inl NoSuchJobError
   \<and> store_jobs deferred_store ''k'' = Some (Pickled (blank_job ''k'' QUEUED))
   \<and> status (blank_job ''k'' QUEUED) \<noteq> DEFERRED
   \<and> fst (release_job (\<lambda>j. j) 0 (AnId ''k'') None deferred_store)
       = Inl InvalidJobOperationError
   \<and> status (blank_job ''m'' DEFERRED) = DEFERRED
   \<and> ''m'' \<notin> set (store_sets deferred_store ''rq:deferred'')
   \<and> fst (release_job (\<lambda>j. j) 0 (AJob (blank_job ''m'' DEFERRED)) None deferred_store)
       = Inl NoSuchJobError
   \<and> store_jobs deferred_store ''j''
       = Some (Pickled ((blank_job ''j'' DEFERRED)\<lparr>origin := Some ''1''\<rparr>))
   \<and> ''j'' \<in> set (store_sets deferred_store ''rq:deferred'')
   \<and> fst (release_job (\<lambda>j. j) 0 (AnId ''j'') None deferred_store) = Inr ()
   \<and> store_lists (snd (release_job (\<lambda>j. j) 0 (AnId ''j'') None deferred_store))
       = (\<lambda>_. [])(''rq:queue:1'' := [''j''])
   \<and> fst (release_job (\<lambda>j. j) 0 (AnId ''j'') (Some (AName ''2'')) deferred_store) = Inr ()
   \<and> ''j'' \<notin> set (store_sets
         (snd (release_job (\<lambda>j. j) 0 (AnId ''j'') (Some (AName ''2'')) deferred_store))
         ''rq:deferred'')
   \<and> store_lists
         (snd (release_job (\<lambda>j. j) 0 (AnId ''j'') (Some (AName ''2'')) deferred_store))
       = (\<lambda>_. [])(''rq:queue:2'' := [''j''])
   \<and> store_jobs
         (snd (release_job (\<lambda>j. j) 0 (AnId ''j'') (Some (AName ''2'')) deferred_store)) ''j''
       = Some (Pickled ((blank_job ''j'' QUEUED)
                 \<lparr>origin := Some ''2'', timeout := Some 180, enqueued_at := Some 0\<rparr>))
   \<and> fst (release_job (\<lambda>j. j\<lparr>status := FINISHED\<rparr>) 0 (AnId ''j'')
            (Some (AQueue ((Queue_init (Some ''3''))\<lparr>async := False\<rparr>))) deferred_store)
       = Inr ()
   \<and> store_lists
         (snd (release_job (\<lambda>j. j\<lparr>status := FINISHED\<rparr>) 0 (AnId ''j'')
                 (Some (AQueue ((Queue_init (Some ''3''))\<lparr>async := False\<rparr>))) deferred_store))
       = (\<lambda>_. [])
   \<and> store_jobs
         (snd (release_job (\<lambda>j. j\<lparr>status := FINISHED\<rparr>) 0 (AnId ''j'')
                 (Some (AQueue ((Queue_init (Some ''3''))\<lparr>async := False\<rparr>))) deferred_store))
         ''j''
       = Some (Pickled ((blank_job ''j'' FINISHED)
                 \<lparr>origin := Some ''3'', timeout := Some 180, enqueued_at := Some 0\<rparr>))"
proof -
  let ?j = "(blank_job ''j'' DEFERRED)\<lparr>origin := Some ''1''\<rparr>"
  let ?sync = "(Queue_init (Some ''3''))\<lparr>async := False\<rparr>"
  have jobs: "store_jobs deferred_store ''nope'' = None"
    "store_jobs deferred_store ''k'' = Some (Pickled (blank_job ''k'' QUEUED))"
    "store_jobs deferred_store ''j'' = Some (Pickled ?j)"
    by (simp_all add: deferred_store_def with_set_def save_def blank_job_def empty_store_def)
  have sets: "store_sets deferred_store ''rq:deferred'' = [''j'']"
    by (simp add: deferred_store_def with_set_def save_def empty_store_def)
  have lists: "store_lists deferred_store = (\<lambda>_. [])"
    by (simp add: deferred_store_def with_set_def save_def empty_store_def)
  have keys: "key (Queue_init (Some ''1'')) = ''rq:queue:1''"
    "key (Queue_init (Some ''2'')) = ''rq:queue:2''"
    by (simp_all add: key_def Queue_init_def py_str_def redis_queue_namespace_prefix_def)
  have a: "fst (release_job (\<lambda>j. j) 0 (AnId ''nope'') None deferred_store) = Inl NoSuchJobError"
    using release_job_outcomes [where s = deferred_store and i = "''nope''"
        and perform = "\<lambda>j. j" and now = 0 and qn = None]
    by (simp add: jobs)
  have b: "fst (release_job (\<lambda>j. j) 0 (AnId ''k'') None deferred_store)
             = Inl InvalidJobOperationError"
    using release_job_outcomes [where s = deferred_store and i = "''k''"
        and perform = "\<lambda>j. j" and now = 0 and qn = None and x = "AnId ''k''"
        and job = "blank_job ''k'' QUEUED"]
    by (simp add: jobs blank_job_def)
  have c: "fst (release_job (\<lambda>j. j) 0 (AJob (blank_job ''m'' DEFERRED)) None deferred_store)
             = Inl NoSuchJobError"
    using release_job_outcomes [where s = deferred_store and i = "''m''"
        and perform = "\<lambda>j. j" and now = 0 and qn = None
        and x = "AJob (blank_job ''m'' DEFERRED)" and job = "blank_job ''m'' DEFERRED"]
    by (simp add: sets blank_job_def)
  have d: "fst (release_job (\<lambda>j. j) 0 (AnId ''j'') None deferred_store) = Inr ()
         \<and> store_lists (snd (release_job (\<lambda>j. j) 0 (AnId ''j'') None deferred_store))
             = (\<lambda>_. [])(''rq:queue:1'' := [''j''])"
    using release_job_outcomes [where s = deferred_store and i = "''j''"
        and perform = "\<lambda>j. j" and now = 0 and qn = None and x = "AnId ''j''"
        and job = ?j and target = "Queue_init (Some ''1'')"
        and queued = "?j\<lparr>status := QUEUED, origin := Some ''1'', enqueued_at := Some 0,
                       timeout := Some DEFAULT_TIMEOUT\<rparr>"]
    by (simp add: jobs sets lists keys blank_job_def Queue_init_sel)
  have e: "fst (release_job (\<lambda>j. j) 0 (AnId ''j'') (Some (AName ''2'')) deferred_store) = Inr ()
         \<and> ''j'' \<notin> set (store_sets
               (snd (release_job (\<lambda>j. j) 0 (AnId ''j'') (Some (AName ''2'')) deferred_store))
               ''rq:deferred'')
         \<and> store_lists
               (snd (release_job (\<lambda>j. j) 0 (AnId ''j'') (Some (AName ''2'')) deferred_store))
             = (\<lambda>_. [])(''rq:queue:2'' := [''j''])
         \<and> store_jobs
               (snd (release_job (\<lambda>j. j) 0 (AnId ''j'') (Some (AName ''2'')) deferred_store))
               ''j''
             = Some (Pickled ((blank_job ''j'' QUEUED)
                 \<lparr>origin := Some ''2'', timeout := Some 180, enqueued_at := Some 0\<rparr>))"
    using release_job_outcomes [where s = deferred_store and i = "''j''"
        and perform = "\<lambda>j. j" and now = 0 and qn = "Some (AName ''2'')" and x = "AnId ''j''"
        and job = ?j and target = "Queue_init (Some ''2'')"
        and queued = "?j\<lparr>status := QUEUED, origin := Some ''2'', enqueued_at := Some 0,
                       timeout := Some DEFAULT_TIMEOUT\<rparr>"]
    by (simp add: jobs sets lists keys blank_job_def DEFAULT_TIMEOUT_def Queue_init_sel)
  have f: "fst (release_job (\<lambda>j. j\<lparr>status := FINISHED\<rparr>) 0 (AnId ''j'')
                  (Some (AQueue ?sync)) deferred_store) = Inr ()
         \<and> store_lists
               (snd (release_job (\<lambda>j. j\<lparr>status := FINISHED\<rparr>) 0 (AnId ''j'')
                       (Some (AQueue ?sync)) deferred_store))
             = (\<lambda>_. [])
         \<and> store_jobs
               (snd (release_job (\<lambda>j. j\<lparr>status := FINISHED\<rparr>) 0 (AnId ''j'')
                       (Some (AQueue ?sync)) deferred_store)) ''j''
             = Some (Pickled ((blank_job ''j'' FINISHED)
                 \<lparr>origin := Some ''3'', timeout := Some 180, enqueued_at := Some 0\<rparr>))"
    using release_job_outcomes [where s = deferred_store and i = "''j''"
        and perform = "\<lambda>j. j\<lparr>status := FINISHED\<rparr>" and now = 0
        and qn = "Some (AQueue ?sync)" and x = "AnId ''j''"
        and job = ?j and target = ?sync
        and queued = "?j\<lparr>status := QUEUED, origin := Some ''3'', enqueued_at := Some 0,
                       timeout := Some DEFAULT_TIMEOUT\<rparr>"]
    by (simp add: jobs sets lists blank_job_def DEFAULT_TIMEOUT_def Queue_init_sel)
  show ?thesis
    using a b c d e f by (simp add: jobs sets blank_job_def)
qed




section \<open>Quarantine and requeue\<close>

lemma enqueue_job_keeps_meta:
  assumes "timeout job = Some t"
  shows "fst (enqueue_job perform now self job False s) = (if async self then job else perform job)"
  using assms by (simp add: enqueue_job_def Let_def)

lemma failed_queue_async:
  "async FailedQueue_init"
  by (simp add: FailedQueue_init_def Queue_init_def)

lemma home_key_not_failed:
  "n \<noteq> ''failed'' \<Longrightarrow> key (Queue_init (Some n)) \<noteq> key FailedQueue_init"
  by (simp add: key_def FailedQueue_init_def Queue_init_def py_str_def)

text \<open>
  C4, as amended. Round-trip: for every job \<open>j\<close> whose origin is set to a name other than
  \<open>failed\<close> and that has a timeout value, \<^verbatim>\<open>quarantine(j, e)\<close> followed by \<^verbatim>\<open>requeue(j.id)\<close>
  leaves the ID of \<open>j\<close> at the tail of the queue named by its origin, the failed queue no
  longer contains it, and the stored record has status \<open>QUEUED\<close>, no \<open>exc_info\<close>, and the
  timeout and origin it had before the quarantine.
\<close>

theorem quarantine_requeue_round_trip:
  assumes "origin j = Some n" and "n \<noteq> ''failed''" and "timeout j = Some t"
  shows "let s1 = snd (quarantine perform now1 FailedQueue_init j e s);
             r = requeue perform now2 FailedQueue_init (job_id j) s1
         in fst r = Inr ()
          \<and> job_id j \<notin> set (store_lists (snd r) (key FailedQueue_init))
          \<and> store_lists (snd r) (key (Queue_init (Some n)))
              = store_lists s (key (Queue_init (Some n))) @ [job_id j]
          \<and> (\<exists>j'. store_jobs (snd r) (job_id j) = Some (Pickled j')
                   \<and> status j' = QUEUED \<and> exc_info j' = None
                   \<and> timeout j' = Some t \<and> origin j' = Some n)"
proof -
  define jq where "jq = j\<lparr>ended_at := Some now1, exc_info := e\<rparr>"
  define s1 where "s1 = snd (quarantine perform now1 FailedQueue_init j e s)"
  have tq: "timeout jq = Some t"
    using assms(3) by (simp add: jq_def)
  have s1: "s1 = s\<lparr>store_lists := (store_lists s)(key FailedQueue_init :=
                       store_lists s (key FailedQueue_init) @ [job_id j]),
                   store_sets := store_sets (conn_sadd redis_queues_keys (key FailedQueue_init) s),
                   store_jobs := (store_jobs s)(job_id j \<mapsto> Pickled jq)\<rparr>"
    using enqueue_job_async [OF failed_queue_async, of perform now1 jq False s]
    by (simp add: s1_def quarantine_def jq_def [symmetric]
        enqueue_job_keeps_meta [OF tq] failed_queue_async)
      (simp add: jq_def)
  have fetch: "Job_fetch (job_id j) s1 = Inr jq"
    by (simp add: s1 Job_fetch_def) (simp add: jq_def)
  define s2 where "s2 = s1\<lparr>store_lists := (store_lists s1)(key FailedQueue_init :=
                       removeAll (job_id j) (store_lists s1 (key FailedQueue_init)))\<rparr>"
  have rem: "queue_remove FailedQueue_init (AJob jq) s1
               = (count_list (store_lists s1 (key FailedQueue_init)) (job_id j), s2)"
    by (simp add: queue_remove_def conn_lrem_def s2_def Let_def) (simp add: jq_def)
  have pos: "count_list (store_lists s1 (key FailedQueue_init)) (job_id j) \<noteq> 0"
    by (simp add: s1 count_list_0_iff)
  define j1 where "j1 = jq\<lparr>status := QUEUED, exc_info := None\<rparr>"
  have home: "Queue_init (origin j1) = Queue_init (Some n)"
    using assms(1) by (simp add: j1_def jq_def)
  have ah: "async (Queue_init (Some n))"
    by (simp add: Queue_init_def)
  have req: "requeue perform now2 FailedQueue_init (job_id j) s1
               = (Inr (), snd (enqueue_job perform now2 (Queue_init (Some n)) j1 True s2))"
    using pos by (simp add: requeue_def fetch rem Let_def j1_def [symmetric] home)
  have id1: "job_id j1 = job_id j"
    by (simp add: j1_def jq_def)
  note hk = home_key_not_failed [OF assms(2)]
  have "fst (requeue perform now2 FailedQueue_init (job_id j) s1) = Inr ()"
    by (simp add: req)
  moreover have "job_id j \<notin> set (store_lists
                   (snd (requeue perform now2 FailedQueue_init (job_id j) s1))
                   (key FailedQueue_init))"
    using hk by (simp add: req enqueue_job_async [OF ah] s2_def)
  moreover have "store_lists (snd (requeue perform now2 FailedQueue_init (job_id j) s1))
                   (key (Queue_init (Some n)))
                 = store_lists s (key (Queue_init (Some n))) @ [job_id j]"
    using hk by (simp add: req enqueue_job_async [OF ah] s2_def id1) (simp add: s1)
  moreover have "\<exists>j'. store_jobs (snd (requeue perform now2 FailedQueue_init (job_id j) s1))
                         (job_id j) = Some (Pickled j')
                   \<and> status j' = QUEUED \<and> exc_info j' = None
                   \<and> timeout j' = Some t \<and> origin j' = Some n"
    using assms(3)
    by (simp add: req enqueue_job_async [OF ah] enqueue_job_async_job [OF ah] id1)
      (simp add: j1_def jq_def Queue_init_def)
  ultimately show ?thesis
    by (simp add: Let_def s1_def)
qed

theorem quarantine_requeue_round_trip_witness:
  "origin ((blank_job ''J'' FAILED)\<lparr>origin := Some ''fake'', timeout := Some 200\<rparr>) = Some ''fake''
   \<and> ''fake'' \<noteq> ''failed''
   \<and> timeout ((blank_job ''J'' FAILED)\<lparr>origin := Some ''fake'', timeout := Some 200\<rparr>) = Some 200
   \<and> fst (requeue (\<lambda>j. j) 2 FailedQueue_init ''J''
            (snd (quarantine (\<lambda>j. j) 1 FailedQueue_init
                    ((blank_job ''J'' FAILED)\<lparr>origin := Some ''fake'', timeout := Some 200\<rparr>)
                    (Some ''Some error'') empty_store))) = Inr ()
   \<and> store_lists (snd (requeue (\<lambda>j. j) 2 FailedQueue_init ''J''
            (snd (quarantine (\<lambda>j. j) 1 FailedQueue_init
                    ((blank_job ''J'' FAILED)\<lparr>origin := Some ''fake'', timeout := Some 200\<rparr>)
                    (Some ''Some error'') empty_store)))) ''rq:queue:failed'' = []
   \<and> store_lists (snd (requeue (\<lambda>j. j) 2 FailedQueue_init ''J''
            (snd (quarantine (\<lambda>j. j) 1 FailedQueue_init
                    ((blank_job ''J'' FAILED)\<lparr>origin := Some ''fake'', timeout := Some 200\<rparr>)
                    (Some ''Some error'') empty_store)))) ''rq:queue:fake'' = [''J'']"
proof -
  have "store_lists (snd (requeue (\<lambda>j. j) 2 FailedQueue_init ''J''
            (snd (quarantine (\<lambda>j. j) 1 FailedQueue_init
                    ((blank_job ''J'' FAILED)\<lparr>origin := Some ''fake'', timeout := Some 200\<rparr>)
                    (Some ''Some error'') empty_store)))) ''rq:queue:failed'' = []"
    by (simp add: requeue_def quarantine_def blank_job_def empty_store_def Job_fetch_def
        queue_remove_def conn_lrem_def enqueue_job_def Let_def conn_sadd_def save_def
        push_job_id_def conn_rpush_def key_def FailedQueue_init_def Queue_init_def py_str_def
        redis_queue_namespace_prefix_def redis_queues_keys_def)
  with quarantine_requeue_round_trip
         [of "(blank_job ''J'' FAILED)\<lparr>origin := Some ''fake'', timeout := Some 200\<rparr>"
             "''fake''" 200 "\<lambda>j. j" 1 "Some ''Some error''" empty_store 2]
  show ?thesis
    by (simp add: blank_job_def Let_def key_def Queue_init_def py_str_def
        redis_queue_namespace_prefix_def empty_store_def)
qed

text \<open>
  C4 as stated fails for a job whose origin is the failed queue itself: after the round
  trip its ID is on the failed queue's list, which is the list of its origin.
\<close>

theorem quarantine_requeue_failed_origin_counterexample:
  "origin ((blank_job ''J'' FAILED)\<lparr>origin := Some ''failed'', timeout := Some 200\<rparr>)
     = Some ''failed''
   \<and> timeout ((blank_job ''J'' FAILED)\<lparr>origin := Some ''failed'', timeout := Some 200\<rparr>)
     = Some 200
   \<and> fst (requeue (\<lambda>j. j) 2 FailedQueue_init ''J''
            (snd (quarantine (\<lambda>j. j) 1 FailedQueue_init
                    ((blank_job ''J'' FAILED)\<lparr>origin := Some ''failed'', timeout := Some 200\<rparr>)
                    (Some ''Some error'') empty_store))) = Inr ()
   \<and> ''J'' \<in> set (store_lists (snd (requeue (\<lambda>j. j) 2 FailedQueue_init ''J''
            (snd (quarantine (\<lambda>j. j) 1 FailedQueue_init
                    ((blank_job ''J'' FAILED)\<lparr>origin := Some ''failed'', timeout := Some 200\<rparr>)
                    (Some ''Some error'') empty_store)))) (key FailedQueue_init))"
  by (simp add: requeue_def quarantine_def blank_job_def empty_store_def Job_fetch_def
      queue_remove_def conn_lrem_def enqueue_job_def Let_def conn_sadd_def save_def
      push_job_id_def conn_rpush_def key_def FailedQueue_init_def Queue_init_def py_str_def
      redis_queue_namespace_prefix_def redis_queues_keys_def)

section \<open>Multi-queue dequeue without a timeout\<close>

lemma lpop_each_first_nonempty:
  "\<forall>p\<in>set pre. store_lists s p = [] \<Longrightarrow> store_lists s k = i # rest \<Longrightarrow>
     lpop_each (pre @ k # post) s
       = (Some (k, i), s\<lparr>store_lists := (store_lists s)(k := rest)\<rparr>)"
  by (induction pre) (auto simp: conn_lpop_def)

lemma from_queue_key_key:
  "from_queue_key (key q) = Inr (Queue_init (Some (py_str (name q))))"
  by (simp add: from_queue_key_def key_def Let_def)

lemma key_from_queue_key:
  "key (Queue_init (Some (py_str (name q)))) = key q"
  by (simp add: key_def Queue_init_def py_str_def)

text \<open>
  C6, as amended. With timeout none, \<^verbatim>\<open>dequeue_any\<close> pops the head ID of the first queue in
  the supplied order whose list is non-empty. When that ID has a backing Job Record that
  deserializes, this is the only pop and the call returns the (Job, Queue) pair, the queue
  being the one of the key that served the job. When the record exists but does not
  deserialize, this is the only pop and the call fails with \<open>UnpickleError\<close>, the ID and that
  queue attached. When that ID has no backing record, the ID is dropped and the call starts
  over on what is left. When every supplied queue is empty, including the case of an empty
  queue list, it returns none.
\<close>

theorem dequeue_any_nonblocking:
  "((\<forall>q\<in>set queues. store_lists s (key q) = []) \<longrightarrow>
      dequeue_any queues None s = (Inr None, s))
   \<and> (queues = pre @ q # post \<and> (\<forall>p\<in>set pre. store_lists s (key p) = [])
        \<and> store_lists s (key q) = i # rest \<longrightarrow>
        (\<forall>j. store_jobs s i = Some (Pickled j) \<longrightarrow>
           dequeue_any queues None s
             = (Inr (Some (j\<lparr>job_id := i\<rparr>, Queue_init (Some (py_str (name q))))),
                s\<lparr>store_lists := (store_lists s)(key q := rest)\<rparr>)
           \<and> key (Queue_init (Some (py_str (name q)))) = key q)
      \<and> (store_jobs s i = Some Corrupt \<longrightarrow>
           dequeue_any queues None s
             = (Inl (UnpickleError (Some (i, Queue_init (Some (py_str (name q)))))),
                s\<lparr>store_lists := (store_lists s)(key q := rest)\<rparr>))
      \<and> (store_jobs s i = None \<longrightarrow>
           dequeue_any queues None s
             = dequeue_any queues None (s\<lparr>store_lists := (store_lists s)(key q := rest)\<rparr>)))"
proof (intro conjI impI allI)
  assume "\<forall>q\<in>set queues. store_lists s (key q) = []"
  then have "lpop_each (map key queues) s = (None, s)"
    by (simp add: lpop_each_all_empty)
  then show "dequeue_any queues None s = (Inr None, s)"
    by (simp add: dequeue_any.simps Queue_lpop_def)
next
  fix j
  assume a: "queues = pre @ q # post \<and> (\<forall>p\<in>set pre. store_lists s (key p) = [])
               \<and> store_lists s (key q) = i # rest"
    and r: "store_jobs s i = Some (Pickled j)"
  from a have "lpop_each (map key queues) s
                 = (Some (key q, i), s\<lparr>store_lists := (store_lists s)(key q := rest)\<rparr>)"
    using lpop_each_first_nonempty [of "map key pre" s "key q" i rest "map key post"] by simp
  then show "dequeue_any queues None s
             = (Inr (Some (j\<lparr>job_id := i\<rparr>, Queue_init (Some (py_str (name q))))),
                s\<lparr>store_lists := (store_lists s)(key q := rest)\<rparr>)"
    using r by (simp add: dequeue_any.simps Queue_lpop_def from_queue_key_key Job_fetch_def)
next
  show "key (Queue_init (Some (py_str (name q)))) = key q"
    by (rule key_from_queue_key)
next
  assume a: "queues = pre @ q # post \<and> (\<forall>p\<in>set pre. store_lists s (key p) = [])
               \<and> store_lists s (key q) = i # rest"
    and r: "store_jobs s i = Some Corrupt"
  from a have "lpop_each (map key queues) s
                 = (Some (key q, i), s\<lparr>store_lists := (store_lists s)(key q := rest)\<rparr>)"
    using lpop_each_first_nonempty [of "map key pre" s "key q" i rest "map key post"] by simp
  then show "dequeue_any queues None s
             = (Inl (UnpickleError (Some (i, Queue_init (Some (py_str (name q)))))),
                s\<lparr>store_lists := (store_lists s)(key q := rest)\<rparr>)"
    using r by (simp add: dequeue_any.simps Queue_lpop_def from_queue_key_key Job_fetch_def)
next
  assume a: "queues = pre @ q # post \<and> (\<forall>p\<in>set pre. store_lists s (key p) = [])
               \<and> store_lists s (key q) = i # rest"
    and r: "store_jobs s i = None"
  from a have "lpop_each (map key queues) s
                 = (Some (key q, i), s\<lparr>store_lists := (store_lists s)(key q := rest)\<rparr>)"
    using lpop_each_first_nonempty [of "map key pre" s "key q" i rest "map key post"] by simp
  then show "dequeue_any queues None s
             = dequeue_any queues None (s\<lparr>store_lists := (store_lists s)(key q := rest)\<rparr>)"
    using r
    by (subst dequeue_any.simps) (simp add: Queue_lpop_def from_queue_key_key Job_fetch_def)
qed

theorem dequeue_any_nonblocking_witness:
  "store_lists (with_list ''rq:queue:bar'' [''b1'', ''b2'']
                  (save (blank_job ''b1'' QUEUED) empty_store))
       (key (Queue_init (Some ''foo''))) = []
   \<and> store_lists (with_list ''rq:queue:bar'' [''b1'', ''b2'']
                  (save (blank_job ''b1'' QUEUED) empty_store))
       (key (Queue_init (Some ''bar''))) = [''b1'', ''b2'']
   \<and> store_jobs (with_list ''rq:queue:bar'' [''b1'', ''b2'']
                  (save (blank_job ''b1'' QUEUED) empty_store)) ''b1''
       = Some (Pickled (blank_job ''b1'' QUEUED))
   \<and> fst (dequeue_any [Queue_init (Some ''foo''), Queue_init (Some ''bar'')] None
            (with_list ''rq:queue:bar'' [''b1'', ''b2'']
               (save (blank_job ''b1'' QUEUED) empty_store)))
       = Inr (Some (blank_job ''b1'' QUEUED, Queue_init (Some ''bar'')))
   \<and> store_lists
        (snd (dequeue_any [Queue_init (Some ''foo''), Queue_init (Some ''bar'')] None
                (with_list ''rq:queue:bar'' [''b1'', ''b2'']
                   (save (blank_job ''b1'' QUEUED) empty_store))))
        ''rq:queue:bar'' = [''b2'']
   \<and> store_lists empty_store (key (Queue_init (Some ''foo''))) = []
   \<and> store_lists empty_store (key (Queue_init (Some ''bar''))) = []
   \<and> dequeue_any [Queue_init (Some ''foo''), Queue_init (Some ''bar'')] None empty_store
       = (Inr None, empty_store)
   \<and> dequeue_any [] None empty_store = (Inr None, empty_store)
   \<and> store_jobs (with_list ''rq:queue:bar'' [''b1'', ''b2'']
                  (empty_store\<lparr>store_jobs := [''b1'' \<mapsto> Corrupt]\<rparr>)) ''b1'' = Some Corrupt
   \<and> fst (dequeue_any [Queue_init (Some ''foo''), Queue_init (Some ''bar'')] None
            (with_list ''rq:queue:bar'' [''b1'', ''b2'']
               (empty_store\<lparr>store_jobs := [''b1'' \<mapsto> Corrupt]\<rparr>)))
       = Inl (UnpickleError (Some (''b1'', Queue_init (Some ''bar''))))
   \<and> store_lists
        (snd (dequeue_any [Queue_init (Some ''foo''), Queue_init (Some ''bar'')] None
                (with_list ''rq:queue:bar'' [''b1'', ''b2'']
                   (empty_store\<lparr>store_jobs := [''b1'' \<mapsto> Corrupt]\<rparr>))))
        ''rq:queue:bar'' = [''b2'']"
proof -
  let ?c = "with_list ''rq:queue:bar'' [''b1'', ''b2'']
              (empty_store\<lparr>store_jobs := [''b1'' \<mapsto> Corrupt]\<rparr>)"
  let ?s = "with_list ''rq:queue:bar'' [''b1'', ''b2'']
              (save (blank_job ''b1'' QUEUED) empty_store)"
  let ?foo = "Queue_init (Some ''foo'')"
  let ?bar = "Queue_init (Some ''bar'')"
  have keys: "key ?foo = ''rq:queue:foo''" "key ?bar = ''rq:queue:bar''"
    by (simp_all add: key_def Queue_init_def py_str_def redis_queue_namespace_prefix_def)
  have hit: "dequeue_any [?foo, ?bar] None ?s
               = (Inr (Some ((blank_job ''b1'' QUEUED)\<lparr>job_id := ''b1''\<rparr>,
                             Queue_init (Some (py_str (name ?bar))))),
                  ?s\<lparr>store_lists := (store_lists ?s)(key ?bar := [''b2''])\<rparr>)"
    using dequeue_any_nonblocking
            [of "[?foo, ?bar]" ?s "[?foo]" ?bar "[]" "''b1''" "[''b2'']"]
    by (simp add: keys with_list_def save_def blank_job_def empty_store_def)
  have none: "dequeue_any [?foo, ?bar] None empty_store = (Inr None, empty_store)"
    using dequeue_any_nonblocking [of "[?foo, ?bar]" empty_store]
    by (simp add: keys empty_store_def)
  have nil: "dequeue_any [] None empty_store = (Inr None, empty_store)"
    using dequeue_any_nonblocking [of "[]" empty_store] by simp
  have bad: "dequeue_any [?foo, ?bar] None ?c
               = (Inl (UnpickleError (Some (''b1'', Queue_init (Some (py_str (name ?bar)))))),
                  ?c\<lparr>store_lists := (store_lists ?c)(key ?bar := [''b2''])\<rparr>)"
    using dequeue_any_nonblocking
            [of "[?foo, ?bar]" ?c "[?foo]" ?bar "[]" "''b1''" "[''b2'']"]
    by (simp add: keys with_list_def empty_store_def)
  show ?thesis
    by (simp add: hit none nil bad keys)
       (simp add: with_list_def save_def blank_job_def empty_store_def Queue_init_def
          py_str_def)
qed

text \<open>
  C6 as stated fails when the head of the first non-empty queue is an ID without a record:
  with \<open>foo\<close> holding only such an ID and \<open>bar\<close> holding the job \<open>b1\<close>, the call pops one ID
  from each list and returns the pair of \<open>bar\<close>, which is not the first non-empty queue.
\<close>

theorem dequeue_any_stale_head_counterexample:
  "store_lists (with_list ''rq:queue:foo'' [''49f205ab'']
                  (with_list ''rq:queue:bar'' [''b1'']
                     (save (blank_job ''b1'' QUEUED) empty_store)))
       (key (Queue_init (Some ''foo''))) = [''49f205ab'']
   \<and> fst (dequeue_any [Queue_init (Some ''foo''), Queue_init (Some ''bar'')] None
            (with_list ''rq:queue:foo'' [''49f205ab'']
               (with_list ''rq:queue:bar'' [''b1'']
                  (save (blank_job ''b1'' QUEUED) empty_store))))
       = Inr (Some (blank_job ''b1'' QUEUED, Queue_init (Some ''bar'')))
   \<and> store_lists
        (snd (dequeue_any [Queue_init (Some ''foo''), Queue_init (Some ''bar'')] None
                (with_list ''rq:queue:foo'' [''49f205ab'']
                   (with_list ''rq:queue:bar'' [''b1'']
                      (save (blank_job ''b1'' QUEUED) empty_store)))))
        (key (Queue_init (Some ''foo''))) = []
   \<and> store_lists
        (snd (dequeue_any [Queue_init (Some ''foo''), Queue_init (Some ''bar'')] None
                (with_list ''rq:queue:foo'' [''49f205ab'']
                   (with_list ''rq:queue:bar'' [''b1'']
                      (save (blank_job ''b1'' QUEUED) empty_store)))))
        (key (Queue_init (Some ''bar''))) = []"
  by (subst dequeue_any.simps, subst dequeue_any.simps,
      subst (2) dequeue_any.simps, subst (2) dequeue_any.simps,
      subst (3) dequeue_any.simps, subst (3) dequeue_any.simps)
     (simp add: Queue_lpop_def conn_lpop_def from_queue_key_def Job_fetch_def Let_def
        key_def Queue_init_def py_str_def redis_queue_namespace_prefix_def with_list_def
        save_def blank_job_def empty_store_def)

section \<open>Enqueueing the dependents of a finished job\<close>

lemma enqueue_dependents_done:
  "store_sets s (dependents_key job) = [] \<Longrightarrow>
     enqueue_dependents perform now self job s = (Inr (), s)"
  by (subst enqueue_dependents.simps) (simp add: conn_spop_def)

lemma enqueue_dependents_step:
  "store_sets s (dependents_key job) = c # cs \<Longrightarrow> store_jobs s c = Some (Pickled j) \<Longrightarrow>
     enqueue_dependents perform now self job s
       = enqueue_dependents perform now self job
           (snd (enqueue_job perform now self (j\<lparr>job_id := c\<rparr>) True
                   (s\<lparr>store_sets := (store_sets s)(dependents_key job := cs)\<rparr>)))"
  by (subst enqueue_dependents.simps) (simp add: conn_spop_def Job_fetch_def)

text \<open>
  One turn of the loop on an asynchronous queue: the child's ID goes to the tail of the
  queue's list and its record is saved with the queue's name as origin; its status and its
  dependencies are what they were.
\<close>

lemma enqueue_child_async:
  assumes "async self"
  shows "snd (enqueue_job perform now self (j\<lparr>job_id := c\<rparr>) True
                (s\<lparr>store_sets := (store_sets s)(dependents_key job := cs)\<rparr>))
    = s\<lparr>store_lists := (store_lists s)(key self := store_lists s (key self) @ [c]),
        store_sets := store_sets (conn_sadd redis_queues_keys (key self)
                        (s\<lparr>store_sets := (store_sets s)(dependents_key job := cs)\<rparr>)),
        store_jobs := (store_jobs s)(c \<mapsto>
           Pickled (j\<lparr>job_id := c, origin := name self, enqueued_at := Some now,
                      timeout := Some (case timeout j of None \<Rightarrow> DEFAULT_TIMEOUT
                                       | Some t \<Rightarrow> t)\<rparr>))\<rparr>"
  by (simp add: enqueue_job_async [OF assms] enqueue_job_async_job [OF assms])

lemma enqueue_dependents_drains:
  assumes "async self"
  shows "store_sets s (dependents_key job) = cs \<Longrightarrow>
         \<forall>c\<in>set cs. \<exists>j. store_jobs s c = Some (Pickled j) \<Longrightarrow>
         fst (enqueue_dependents perform now self job s) = Inr ()
       \<and> store_sets (snd (enqueue_dependents perform now self job s)) (dependents_key job) = []
       \<and> store_lists (snd (enqueue_dependents perform now self job s)) (key self)
           = store_lists s (key self) @ cs
       \<and> (\<forall>c j. store_jobs s c = Some (Pickled j) \<longrightarrow>
             (\<exists>j'. store_jobs (snd (enqueue_dependents perform now self job s)) c
                      = Some (Pickled j')
                  \<and> status j' = status j \<and> dependencies j' = dependencies j
                  \<and> (c \<in> set cs \<longrightarrow> origin j' = name self)
                  \<and> (c \<notin> set cs \<longrightarrow> j' = j)))"
proof (induction cs arbitrary: s)
  case Nil
  then show ?case by (simp add: enqueue_dependents_done)
next
  case (Cons c cs)
  from Cons.prems(2) obtain j where j: "store_jobs s c = Some (Pickled j)"
    by auto
  define j2 where "j2 = j\<lparr>job_id := c, origin := name self, enqueued_at := Some now,
                      timeout := Some (case timeout j of None \<Rightarrow> DEFAULT_TIMEOUT
                                       | Some t \<Rightarrow> t)\<rparr>"
  define s2 where "s2 = snd (enqueue_job perform now self (j\<lparr>job_id := c\<rparr>) True
                   (s\<lparr>store_sets := (store_sets s)(dependents_key job := cs)\<rparr>))"
  have s2: "s2 = s\<lparr>store_lists := (store_lists s)(key self := store_lists s (key self) @ [c]),
        store_sets := store_sets (conn_sadd redis_queues_keys (key self)
                        (s\<lparr>store_sets := (store_sets s)(dependents_key job := cs)\<rparr>)),
        store_jobs := (store_jobs s)(c \<mapsto> Pickled j2)\<rparr>"
    unfolding s2_def j2_def by (rule enqueue_child_async [OF assms])
  have step: "enqueue_dependents perform now self job s
                = enqueue_dependents perform now self job s2"
    unfolding s2_def by (rule enqueue_dependents_step [OF Cons.prems(1) j])
  have set2: "store_sets s2 (dependents_key job) = cs"
    by (simp add: s2 store_sets_conn_sadd_other [OF dependents_key_not_registry])
  have rec2: "\<forall>c'\<in>set cs. \<exists>j. store_jobs s2 c' = Some (Pickled j)"
    using Cons.prems(2) by (simp add: s2)
  note IH = Cons.IH [OF set2 rec2]
  have list2: "store_lists s2 (key self) = store_lists s (key self) @ [c]"
    by (simp add: s2)
  have recs: "\<exists>j'. store_jobs (snd (enqueue_dependents perform now self job s2)) c'
                      = Some (Pickled j')
                  \<and> status j' = status j0 \<and> dependencies j' = dependencies j0
                  \<and> (c' \<in> set (c # cs) \<longrightarrow> origin j' = name self)
                  \<and> (c' \<notin> set (c # cs) \<longrightarrow> j' = j0)"
    if j0: "store_jobs s c' = Some (Pickled j0)" for c' j0
  proof (cases "c' = c")
    case True
    then have "j0 = j" using j j0 by simp
    have "store_jobs s2 c' = Some (Pickled j2)"
      using True by (simp add: s2)
    with IH obtain j' where
      "store_jobs (snd (enqueue_dependents perform now self job s2)) c' = Some (Pickled j')"
      "status j' = status j2" "dependencies j' = dependencies j2"
      "c' \<in> set cs \<longrightarrow> origin j' = name self" "c' \<notin> set cs \<longrightarrow> j' = j2"
      by blast
    then show ?thesis
      using True \<open>j0 = j\<close> by (cases "c' \<in> set cs") (auto simp: j2_def)
  next
    case False
    then have "store_jobs s2 c' = Some (Pickled j0)"
      using j0 by (simp add: s2)
    with IH obtain j' where
      "store_jobs (snd (enqueue_dependents perform now self job s2)) c' = Some (Pickled j')"
      "status j' = status j0" "dependencies j' = dependencies j0"
      "c' \<in> set cs \<longrightarrow> origin j' = name self" "c' \<notin> set cs \<longrightarrow> j' = j0"
      by blast
    then show ?thesis
      using False by auto
  qed
  show ?case
    unfolding step using IH recs by (simp add: list2)
qed

text \<open>
  C1, as amended. For every parent job and every child ID drained from the parent's
  reverse-dependency set, \<^verbatim>\<open>enqueue_dependents\<close> loads the child's record and enqueues the
  child on the queue it is called on, whether or not the child's other parents have status
  \<open>FINISHED\<close>: on an asynchronous queue, when every member of the set has a record that
  loads, the call returns with the set empty and every member appended, in the order
  popped, to the queue's FIFO list; each child's stored origin is then that queue's name,
  and its status is left as it was stored.
\<close>

theorem enqueue_dependents_enqueues_all:
  assumes "async self"
    and "\<forall>c\<in>set (store_sets s (dependents_key job)). \<exists>j. store_jobs s c = Some (Pickled j)"
  shows "fst (enqueue_dependents perform now self job s) = Inr ()
       \<and> store_sets (snd (enqueue_dependents perform now self job s)) (dependents_key job) = []
       \<and> store_lists (snd (enqueue_dependents perform now self job s)) (key self)
           = store_lists s (key self) @ store_sets s (dependents_key job)
       \<and> (\<forall>c\<in>set (store_sets s (dependents_key job)). \<forall>j.
             store_jobs s c = Some (Pickled j) \<longrightarrow>
             (\<exists>j'. store_jobs (snd (enqueue_dependents perform now self job s)) c
                      = Some (Pickled j')
                  \<and> status j' = status j \<and> dependencies j' = dependencies j
                  \<and> origin j' = name self))"
  using enqueue_dependents_drains [OF assms(1) refl assms(2), of perform now]
  by blast

theorem enqueue_dependents_enqueues_all_witness:
  "async (Queue_init (Some ''default''))
   \<and> store_sets dependents_store (dependents_key (blank_job ''p'' FINISHED)) = [''c'']
   \<and> store_jobs dependents_store ''c''
       = Some (Pickled ((blank_job ''c'' DEFERRED)\<lparr>dependencies := [''p'', ''p2'']\<rparr>))
   \<and> fst (enqueue_dependents (\<lambda>j. j) 5 (Queue_init (Some ''default''))
            (blank_job ''p'' FINISHED) dependents_store) = Inr ()
   \<and> store_sets (snd (enqueue_dependents (\<lambda>j. j) 5 (Queue_init (Some ''default''))
                        (blank_job ''p'' FINISHED) dependents_store))
        (dependents_key (blank_job ''p'' FINISHED)) = []
   \<and> store_lists (snd (enqueue_dependents (\<lambda>j. j) 5 (Queue_init (Some ''default''))
                         (blank_job ''p'' FINISHED) dependents_store))
        ''rq:queue:default'' = [''c'']"
proof -
  have dk: "dependents_key (blank_job ''p'' FINISHED) = ''rq:job:p:dependents''"
    by (simp add: dependents_key_def blank_job_def)
  have members: "store_sets dependents_store ''rq:job:p:dependents'' = [''c'']"
    by (simp add: dependents_store_def with_set_def save_def empty_store_def)
  have child: "store_jobs dependents_store ''c''
       = Some (Pickled ((blank_job ''c'' DEFERRED)\<lparr>dependencies := [''p'', ''p2'']\<rparr>))"
    by (simp add: dependents_store_def with_set_def save_def empty_store_def blank_job_def)
  have lists: "store_lists dependents_store = (\<lambda>_. [])"
    by (simp add: dependents_store_def with_set_def save_def empty_store_def)
  have as: "async (Queue_init (Some ''default''))"
    by (simp add: Queue_init_def)
  have recs: "\<forall>c\<in>set (store_sets dependents_store (dependents_key (blank_job ''p'' FINISHED))).
                \<exists>j. store_jobs dependents_store c = Some (Pickled j)"
    by (simp add: dk members child)
  have k: "key (Queue_init (Some ''default'')) = ''rq:queue:default''"
    by (simp add: key_def Queue_init_def py_str_def redis_queue_namespace_prefix_def)
  from enqueue_dependents_enqueues_all [OF as recs, of "\<lambda>j. j" 5]
  show ?thesis
    using as child by (simp add: dk members lists k)
qed

text \<open>
  C1 as stated fails. The job \<open>c\<close> waits on the finished job \<open>p\<close> and on the job \<open>p2\<close>, which
  has only started. \<^verbatim>\<open>enqueue_dependents(p)\<close> puts \<open>c\<close> on the queue's list all the same, and
  the status stored for \<open>c\<close> is still \<open>DEFERRED\<close>.
\<close>

theorem enqueue_dependents_unfinished_parent_counterexample:
  "''c'' \<in> set (store_sets dependents_store (dependents_key (blank_job ''p'' FINISHED)))
   \<and> Job_fetch ''c'' dependents_store
       = Inr ((blank_job ''c'' DEFERRED)\<lparr>dependencies := [''p'', ''p2'']\<rparr>)
   \<and> Job_fetch ''p2'' dependents_store = Inr (blank_job ''p2'' STARTED)
   \<and> status (blank_job ''p2'' STARTED) \<noteq> FINISHED
   \<and> fst (enqueue_dependents (\<lambda>j. j) 5 (Queue_init (Some ''default''))
            (blank_job ''p'' FINISHED) dependents_store) = Inr ()
   \<and> ''c'' \<in> set (store_lists
                    (snd (enqueue_dependents (\<lambda>j. j) 5 (Queue_init (Some ''default''))
                            (blank_job ''p'' FINISHED) dependents_store))
                    (key (Queue_init (Some ''default''))))
   \<and> map_sum id status
        (Job_fetch ''c'' (snd (enqueue_dependents (\<lambda>j. j) 5 (Queue_init (Some ''default''))
                                 (blank_job ''p'' FINISHED) dependents_store)))
       = Inr DEFERRED"
  by (subst enqueue_dependents.simps, subst enqueue_dependents.simps,
      subst (2) enqueue_dependents.simps, subst (2) enqueue_dependents.simps,
      subst (3) enqueue_dependents.simps, subst (3) enqueue_dependents.simps)
     (simp add: conn_spop_def Job_fetch_def enqueue_job_def Let_def conn_sadd_def save_def
        push_job_id_def conn_rpush_def key_def Queue_init_def py_str_def
        redis_queue_namespace_prefix_def redis_queues_keys_def dependents_key_def
        dependents_store_def with_set_def blank_job_def empty_store_def DEFAULT_TIMEOUT_def)

end
